theory Spec2Isabelle
  imports Complex_Main
begin

section \<open>AdHunt3r: shared data\<close>

text \<open>
  The extension has three scripts. The inject script (\<open>inject.js\<close>) polls the page and
  builds an ad descriptor; the content script forwards it with \<open>sendMessage\<close>; the
  background script (\<open>background.js\<close>) keeps one record per tab and two rolling 24 hour
  collections in \<open>chrome.storage.local\<close>.

  JavaScript values are modelled as follows. A value that is a string, \<open>null\<close> or
  \<open>undefined\<close> is a \<open>string option\<close> (\<open>None\<close> for both \<open>null\<close> and \<open>undefined\<close>).
  \<open>Date.now()\<close> is an \<open>int\<close> of milliseconds, passed to every operation that reads the
  clock. Times and durations of the host video are \<open>real\<close> seconds (\<open>NaN\<close> is \<open>None\<close> of
  a \<open>real option\<close> where the source guards against it); the rounding of floating
  point arithmetic and the infinities are not modelled. Ad durations are whole seconds.
  A string is a list of characters, one for each UTF-16 code unit, so \<open>length\<close> is the
  \<open>length\<close> property of the source.
\<close>

datatype ad_type =
    skippable
  | bumper
  | non_skippable_short
  | non_skippable_medium
  | non_skippable_long
  | non_skippable
  | type_unknown

datatype ad_position = pre_roll | mid_roll | post_roll | position_unknown

datatype duration_source =
    real_tracking
  | video_element_source
  | progress_total
  | skip_calculation
  | dom_text
  | progress_bar
  | skip_inference
  | estimation
  | source_none

text \<open>Every object of the source with a \<open>timestamp\<close> field extends this record.\<close>

record stamped =
  timestamp :: int

text \<open>
  The object returned by \<open>detectAdTypeCommon\<close>. The overlay strings copied from
  \<open>currentAdData\<close> (advertiser text, headline, ...) play no part in any decision and are
  left out.
\<close>

record ad_descriptor = stamped +
  adType :: ad_type
  isSkippable :: bool
  duration :: int
  durationDetected :: bool
  durationSource :: duration_source
  adPosition :: ad_position
  skipText :: string
  consecutiveAdNumber :: int

text \<open>JavaScript truthiness of a value that is a string, \<open>null\<close> or \<open>undefined\<close>.\<close>

fun truthy :: "string option \<Rightarrow> bool" where
  "truthy None = False"
| "truthy (Some s) = (s \<noteq> [])"

text \<open>\<open>a || b || ... || null\<close> on such values: the first truthy operand, else \<open>null\<close>.\<close>

fun firstTruthy :: "string option list \<Rightarrow> string option" where
  "firstTruthy [] = None"
| "firstTruthy (x # xs) = (if truthy x then x else firstTruthy xs)"

section \<open>The coordinator (background.js)\<close>

text \<open>
  \<open>debugInfo\<close> is an opaque object of which \<open>updateTabData\<close> reads two fields:
  \<open>debugInfo.debug_videoId\<close> and
  \<open>debugInfo.ytInitialPlayerResponse.videoDetails.videoId\<close>.
\<close>

record debug_info =
  info_debug_videoId :: "string option"
  info_videoDetails_videoId :: "string option"

text \<open>
  The payload of a \<open>VIDEO_DEBUG_ALL\<close> message, and (extended by \<open>lastUpdate\<close>) the
  record kept per tab in \<open>debugDataByTab\<close>. \<open>debugText\<close> and \<open>lastUpdate\<close> are optional:
  the \<open>AD_ENDED\<close> handler can create a record that has neither.
\<close>

record debug_data =
  debugText :: "string option"
  debugInfo :: debug_info
  adActive :: bool
  addebug_videoId :: "string option"
  debug_videoId :: "string option"
  adTypeInfo :: "ad_descriptor option"

record tab_data = debug_data +
  lastUpdate :: "int option"

text \<open>The value kept in \<open>lastCountedAdIdByTab\<close>, and an entry of \<open>adTimestamps\<close>.\<close>

record counted_ad = stamped +
  adId :: string

record ad_entry = counted_ad +
  entryTypeInfo :: "ad_descriptor option"

record video_entry = stamped +
  videoId :: string

text \<open>
  The globals of the background script together with the two collections it keeps in
  \<open>chrome.storage.local\<close>. A storage read followed by its callback is one atomic step
  of the model; fire-and-forget notifications to the popup and the badge rendering are
  effects outside this state.
\<close>

record coordinator =
  debugDataByTab :: "int \<rightharpoonup> tab_data"
  lastCountedVideoIdByTab :: "int \<rightharpoonup> string"
  lastAdStateByTab :: "int \<rightharpoonup> bool"
  lastCountedAdIdByTab :: "int \<rightharpoonup> counted_ad"
  globalVideoProcessing :: "string set"
  adTimestamps :: "ad_entry list"
  videoTimestamps :: "video_entry list"

definition initialCoordinator :: coordinator where
  "initialCoordinator =
     \<lparr>debugDataByTab = Map.empty, lastCountedVideoIdByTab = Map.empty,
      lastAdStateByTab = Map.empty, lastCountedAdIdByTab = Map.empty,
      globalVideoProcessing = {}, adTimestamps = [], videoTimestamps = []\<rparr>"

text \<open>\<open>24 * 60 * 60 * 1000\<close> milliseconds.\<close>

definition dayMs :: int where
  "dayMs = 24 * 60 * 60 * 1000"

definition emptyDebugInfo :: debug_info where
  "emptyDebugInfo = \<lparr>info_debug_videoId = None, info_videoDetails_videoId = None\<rparr>"

definition createEmptyTabData :: "int \<Rightarrow> tab_data" where
  "createEmptyTabData now =
     \<lparr>debugText = Some [], debugInfo = emptyDebugInfo, adActive = False,
      addebug_videoId = None, debug_videoId = None, adTypeInfo = None,
      lastUpdate = Some now\<rparr>"

text \<open>\<open>updateBadge\<close>: only the bookkeeping in \<open>lastAdStateByTab\<close> is state.\<close>

definition updateBadge :: "int \<Rightarrow> bool \<Rightarrow> coordinator \<Rightarrow> coordinator" where
  "updateBadge tabId hasAd st =
     (if tabId = 0 then st
      else if lastAdStateByTab st tabId \<noteq> Some hasAd
      then st\<lparr>lastAdStateByTab := (lastAdStateByTab st)(tabId \<mapsto> hasAd)\<rparr>
      else st)"

definition updateTabData :: "int \<Rightarrow> debug_data \<Rightarrow> bool \<Rightarrow> int \<Rightarrow> coordinator \<Rightarrow> coordinator" where
  "updateTabData tabId message hasAd now st =
     st\<lparr>debugDataByTab := (debugDataByTab st)(tabId \<mapsto>
        \<lparr>debugText = debugText message,
         debugInfo = debugInfo message,
         adActive = hasAd,
         addebug_videoId = addebug_videoId message,
         debug_videoId = firstTruthy [debug_videoId message,
            info_debug_videoId (debugInfo message),
            info_videoDetails_videoId (debugInfo message)],
         adTypeInfo = adTypeInfo message,
         lastUpdate = Some now\<rparr>)\<rparr>"

text \<open>
  \<open>saveAdTimestamp\<close>: prune the entries older than 24 hours, then always append.
\<close>

definition saveAdTimestamp ::
  "string \<Rightarrow> ad_descriptor option \<Rightarrow> int \<Rightarrow> coordinator \<Rightarrow> coordinator" where
  "saveAdTimestamp adId' adTypeInfo' timestamp' st =
     st\<lparr>adTimestamps :=
          filter (\<lambda>item. timestamp' - timestamp item \<le> dayMs) (adTimestamps st)
          @ [\<lparr>timestamp = timestamp', adId = adId', entryTypeInfo = adTypeInfo'\<rparr>]\<rparr>"

definition handleAdCounting :: "debug_data \<Rightarrow> int \<Rightarrow> bool \<Rightarrow> int \<Rightarrow> coordinator \<Rightarrow> coordinator" where
  "handleAdCounting message tabId hasAd now st =
     (case addebug_videoId message of
        None \<Rightarrow> st
      | Some adId' \<Rightarrow>
          if hasAd \<and> adId' \<noteq> [] \<and> adId' \<noteq> ''empty_video'' then
            (let shouldCount =
                   (case lastCountedAdIdByTab st tabId of
                      None \<Rightarrow> True
                    | Some lastAdData \<Rightarrow>
                        adId lastAdData \<noteq> adId' \<or> now - timestamp lastAdData > 5000)
             in if shouldCount
                then saveAdTimestamp adId' (adTypeInfo message) now
                       (st\<lparr>lastCountedAdIdByTab := (lastCountedAdIdByTab st)(tabId \<mapsto>
                             \<lparr>timestamp = now, adId = adId'\<rparr>)\<rparr>)
                else st)
          else st)"

text \<open>
  The callback of the storage read in \<open>handleVideoCounting\<close>, for the id that was put
  into \<open>globalVideoProcessing\<close>.
\<close>

definition videoStorageCallback :: "int \<Rightarrow> string \<Rightarrow> int \<Rightarrow> coordinator \<Rightarrow> coordinator" where
  "videoStorageCallback tabId vid now st =
     (case find (\<lambda>item. videoId item = vid \<and> now - timestamp item \<le> dayMs)
             (videoTimestamps st) of
        None \<Rightarrow>
          st\<lparr>lastCountedVideoIdByTab := (lastCountedVideoIdByTab st)(tabId \<mapsto> vid),
             videoTimestamps :=
               filter (\<lambda>item. now - timestamp item \<le> dayMs) (videoTimestamps st)
               @ [\<lparr>timestamp = now, videoId = vid\<rparr>],
             globalVideoProcessing := globalVideoProcessing st - {vid}\<rparr>
      | Some existingEntry \<Rightarrow>
          st\<lparr>lastCountedVideoIdByTab := (lastCountedVideoIdByTab st)(tabId \<mapsto> vid),
             globalVideoProcessing := globalVideoProcessing st - {vid}\<rparr>)"

definition handleVideoCounting :: "int \<Rightarrow> int \<Rightarrow> coordinator \<Rightarrow> coordinator" where
  "handleVideoCounting tabId now st =
     (case debugDataByTab st tabId of
        None \<Rightarrow> st
      | Some tabData \<Rightarrow>
          (case debug_videoId tabData of
             None \<Rightarrow> st
           | Some vid \<Rightarrow>
               if vid = [] \<or> length vid < 10 \<or> Some vid = addebug_videoId tabData then st
               else if lastCountedVideoIdByTab st tabId = Some vid then st
               else if vid \<in> globalVideoProcessing st
               then st\<lparr>lastCountedVideoIdByTab := (lastCountedVideoIdByTab st)(tabId \<mapsto> vid)\<rparr>
               else videoStorageCallback tabId vid now
                      (st\<lparr>globalVideoProcessing := insert vid (globalVideoProcessing st)\<rparr>)))"

text \<open>
  The messages the \<open>chrome.runtime.onMessage\<close> listener of the background script
  distinguishes. \<open>GET_DEBUG_INFO\<close> carries the id of the active tab that
  \<open>chrome.tabs.query\<close> reports, used when the sender has no tab of its own.
\<close>

datatype request =
    VIDEO_DEBUG_ALL debug_data
  | AD_DETECTED
  | AD_ENDED
  | GET_ADS_LAST_24H
  | GET_VIDEOS_LAST_24H
  | GET_DEBUG_INFO "int option"
  | RESET_COUNTERS
  | OTHER_MESSAGE

datatype response =
    NoResponse
  | CountResponse nat
  | SuccessResponse bool
  | DebugInfoResponse tab_data

definition defaultDebugInfo :: tab_data where
  "defaultDebugInfo =
     \<lparr>debugText = Some [], debugInfo = emptyDebugInfo, adActive = False,
      addebug_videoId = None, debug_videoId = None, adTypeInfo = None,
      lastUpdate = None\<rparr>"

definition onVideoDebugAll :: "debug_data \<Rightarrow> int \<Rightarrow> int \<Rightarrow> coordinator \<Rightarrow> coordinator" where
  "onVideoDebugAll message tabId now st =
     (let hasAd = (adActive message \<or> truthy (addebug_videoId message));
          adStateChanged =
            (case debugDataByTab st tabId of
               None \<Rightarrow> True
             | Some currentTabData \<Rightarrow>
                 hasAd \<noteq> adActive currentTabData
                 \<or> (hasAd \<and> truthy (addebug_videoId message)
                     \<and> addebug_videoId message \<noteq> addebug_videoId currentTabData)
                 \<or> (\<not> hasAd \<and> adActive currentTabData));
          tabData = (case debugDataByTab st tabId of
                       None \<Rightarrow> createEmptyTabData now
                     | Some d \<Rightarrow> d);
          st1 = st\<lparr>debugDataByTab := (debugDataByTab st)(tabId \<mapsto> tabData)\<rparr>;
          shouldUpdateData =
            (adStateChanged \<or> debugText message \<noteq> debugText tabData
             \<or> debug_videoId message \<noteq> debug_videoId tabData);
          st2 = (if shouldUpdateData
                 then (let st' = updateTabData tabId message hasAd now st1
                       in if adStateChanged
                          then handleAdCounting message tabId hasAd now (updateBadge tabId hasAd st')
                          else st')
                 else st1)
      in handleVideoCounting tabId now st2)"

text \<open>
  The listener. \<open>sender\<close> is \<open>sender.tab?.id\<close>; \<open>now\<close> is the clock while the message is
  handled. The result is the response passed to \<open>sendResponse\<close> and the new state.
  The \<open>VIDEO_DEBUG_ALL\<close> message that the \<open>GET_DEBUG_INFO\<close> branch sends with
  \<open>chrome.runtime.sendMessage\<close> goes to the other pages of the extension, not to this
  listener, and changes no state here.
\<close>

fun onMessage :: "request \<Rightarrow> int option \<Rightarrow> int \<Rightarrow> coordinator \<Rightarrow> response \<times> coordinator" where
  "onMessage (VIDEO_DEBUG_ALL message) sender now st =
     (case sender of
        None \<Rightarrow> (NoResponse, st)
      | Some tabId \<Rightarrow>
          if tabId = 0 then (NoResponse, st)
          else (NoResponse, onVideoDebugAll message tabId now st))"
| "onMessage AD_DETECTED sender now st =
     (case sender of
        None \<Rightarrow> (NoResponse, st)
      | Some tabId \<Rightarrow> (NoResponse, updateBadge tabId True st))"
| "onMessage AD_ENDED sender now st =
     (case sender of
        None \<Rightarrow> (NoResponse, st)
      | Some tabId \<Rightarrow>
          if tabId = 0 then (NoResponse, st)
          else (let st1 = updateBadge tabId False st;
                    old = (case debugDataByTab st1 tabId of
                             None \<Rightarrow> defaultDebugInfo\<lparr>debugText := None\<rparr>
                           | Some d \<Rightarrow> d)
                in (NoResponse,
                    st1\<lparr>debugDataByTab := (debugDataByTab st1)(tabId \<mapsto>
                          old\<lparr>adActive := False, addebug_videoId := None\<rparr>)\<rparr>)))"
| "onMessage GET_ADS_LAST_24H sender now st =
     (let last24h = filter (\<lambda>item. now - timestamp item \<le> dayMs) (adTimestamps st)
      in (CountResponse (length last24h), st\<lparr>adTimestamps := last24h\<rparr>))"
| "onMessage GET_VIDEOS_LAST_24H sender now st =
     (let last24h = filter (\<lambda>item. now - timestamp item \<le> dayMs) (videoTimestamps st);
          uniqueVideos = remdups (map videoId last24h)
      in (CountResponse (length uniqueVideos), st\<lparr>videoTimestamps := last24h\<rparr>))"
| "onMessage (GET_DEBUG_INFO activeTab) sender now st =
     (case (if sender = Some 0 then None else sender) of
        Some tabId \<Rightarrow>
          (DebugInfoResponse (case debugDataByTab st tabId of
                                None \<Rightarrow> defaultDebugInfo | Some d \<Rightarrow> d), st)
      | None \<Rightarrow>
          (case (if activeTab = Some 0 then None else activeTab) of
             None \<Rightarrow> (DebugInfoResponse defaultDebugInfo, st)
           | Some tabId \<Rightarrow>
               (let tabData = (case debugDataByTab st tabId of
                                 None \<Rightarrow> defaultDebugInfo | Some d \<Rightarrow> d)
                in (DebugInfoResponse tabData, updateBadge tabId (adActive tabData) st))))"
| "onMessage RESET_COUNTERS sender now st =
     (SuccessResponse True,
      st\<lparr>adTimestamps := [], videoTimestamps := [],
         lastCountedVideoIdByTab := Map.empty, lastCountedAdIdByTab := Map.empty,
         globalVideoProcessing := {}\<rparr>)"
| "onMessage OTHER_MESSAGE sender now st = (NoResponse, st)"

section \<open>The content script (content-script.js)\<close>

text \<open>
  The \<open>VIDEO_DEBUG_ALL\<close> message the content script builds from a \<open>YTD_DEBUG_ALL\<close>
  page event: \<open>adActive\<close> is \<open>!!addebug_videoId\<close>.
\<close>

definition videoDebugAll ::
  "string \<Rightarrow> debug_info \<Rightarrow> string option \<Rightarrow> string option \<Rightarrow> ad_descriptor option
   \<Rightarrow> debug_data" where
  "videoDebugAll text' info addebug vid typeInfo =
     \<lparr>debugText = Some text', debugInfo = info, adActive = truthy addebug,
      addebug_videoId = addebug, debug_videoId = vid, adTypeInfo = typeInfo\<rparr>"

text \<open>
  \<open>sendMessage\<close> is local to the content script and is called with three message
  types only. \<open>isMessageSimilar\<close> compares \<open>JSON.stringify\<close> of the two messages, so
  a message is modelled by its type and its JSON text.
\<close>

datatype message_type = VideoDebugAll | AdDetected | AdEnded

record message =
  messageType :: message_type
  json :: string

text \<open>
  \<open>messageBuffer\<close>, extended by \<open>sent\<close>: the messages that
  \<open>chrome.runtime.sendMessage\<close> accepted, each with the time of the call.
\<close>

record content_script =
  lastVideoDebugAll :: "message option"
  lastAdDetected :: "message option"
  lastAdEnded :: "message option"
  lastSentTime :: int
  sent :: "(message \<times> int) list"

definition initialContentScript :: content_script where
  "initialContentScript =
     \<lparr>lastVideoDebugAll = None, lastAdDetected = None, lastAdEnded = None,
      lastSentTime = 0, sent = []\<rparr>"

fun isMessageSimilar :: "message option \<Rightarrow> message option \<Rightarrow> bool" where
  "isMessageSimilar (Some msg1) (Some msg2) = (json msg1 = json msg2)"
| "isMessageSimilar _ _ = False"

text \<open>
  \<open>runtimeOk\<close> says that \<open>chrome.runtime.sendMessage\<close> is a function and the call does
  not throw; otherwise the source returns \<open>false\<close> from its guard or its \<open>catch\<close>.
  The buffer is written before the call is attempted.
\<close>

definition sendMessage ::
  "message \<Rightarrow> int \<Rightarrow> bool \<Rightarrow> content_script \<Rightarrow> bool \<times> content_script" where
  "sendMessage messageData now runtimeOk st =
     (if now - lastSentTime st < 500 then (False, st)
      else
        (let (isDuplicate, st1) =
               (case messageType messageData of
                  VideoDebugAll \<Rightarrow>
                    (let d = isMessageSimilar (Some messageData) (lastVideoDebugAll st)
                     in (d, if \<not> d then st\<lparr>lastVideoDebugAll := Some messageData\<rparr> else st))
                | AdDetected \<Rightarrow>
                    (let d = isMessageSimilar (Some messageData) (lastAdDetected st)
                     in (d, if \<not> d then st\<lparr>lastAdDetected := Some messageData\<rparr> else st))
                | AdEnded \<Rightarrow>
                    (let d = isMessageSimilar (Some messageData) (lastAdEnded st)
                     in (d, if \<not> d then st\<lparr>lastAdEnded := Some messageData\<rparr> else st)))
         in if \<not> isDuplicate \<and> runtimeOk
            then (True, st1\<lparr>sent := sent st1 @ [(messageData, now)], lastSentTime := now\<rparr>)
            else (False, st1)))"

section \<open>The inject script (inject.js)\<close>

subsection \<open>What one detection pass reads\<close>

text \<open>
  An entry of \<open>adDurationTracker.progressUpdates\<close>, and the tracker itself
  (\<open>startAdDurationTracking\<close>).
\<close>

record progress_update = stamped +
  total :: "real option"
  remainingTime :: "int option"

record duration_tracker =
  startTime :: int
  realDuration :: "int option"
  progressUpdates :: "progress_update list"
  isTracking :: bool

text \<open>
  The \<open>video\<close> element. \<open>elementDuration\<close> is \<open>videoElement.duration\<close>, \<open>None\<close> when it
  is \<open>NaN\<close>.
\<close>

record video_element =
  paused :: bool
  ended :: bool
  elementCurrentTime :: real
  elementDuration :: "real option"
  readyState :: nat

text \<open>
  The outcome of the regular expression that \<open>detectAdTypeCommon\<close> applies to the text
  of a time display: the alternative \<open>(\d+):(\d+)\<close> (\<open>Clock\<close>), the alternative
  \<open>(\d+)\s*segundos?\<close>, whose group the source never reads (\<open>Segundos\<close>), or one of
  the other alternatives with one number (\<open>Seconds\<close>).
\<close>

datatype time_match = Clock nat nat | Seconds nat | Segundos nat

text \<open>
  What the locators and the player configuration give in one pass:
  \<^item> \<open>skipButton\<close>: the trimmed text of the first element found with
    \<open>AD_SELECTORS.skipButton\<close>, if there is one;
  \<^item> \<open>adContainer\<close>: whether \<open>adContainer\<close> is set after both container searches;
  \<^item> \<open>bodySkipPhrase\<close>: whether the page text contains one of \<open>skipTexts\<close>;
  \<^item> \<open>skipTextElements\<close>: the trimmed texts of the elements found with
    \<open>AD_SELECTORS.skipText\<close>, in order;
  \<^item> \<open>timeMatch\<close>: the first match among the elements found with \<open>AD_SELECTORS.time\<close>;
  \<^item> \<open>progressMatch\<close>: the match of \<open>(\d+):(\d+)\<close> on the ad progress label;
  \<^item> \<open>inspectionRaises\<close>: whether a call into the page throws inside the
    \<open>try\<close> block;
  \<^item> \<open>video\<close>: \<open>document.querySelector('video')\<close>;
  \<^item> \<open>lengthSeconds\<close>: \<open>ytInitialPlayerResponse.videoDetails.lengthSeconds\<close>, parsed;
  \<^item> \<open>ariaValueNow\<close>, \<open>ariaValueMax\<close>: the attributes of \<open>.ytp-progress-bar\<close>,
    parsed, \<open>None\<close> when missing or not a number;
  \<^item> \<open>argsT\<close>: \<open>ytplayer.config.args.t\<close> when truthy and a number.
\<close>

record page =
  skipButton :: "string option"
  adContainer :: bool
  bodySkipPhrase :: bool
  skipTextElements :: "string list"
  timeMatch :: "time_match option"
  progressMatch :: "(nat \<times> nat) option"
  inspectionRaises :: bool
  video :: "video_element option"
  lengthSeconds :: "real option"
  ariaValueNow :: "real option"
  ariaValueMax :: "real option"
  argsT :: "real option"

text \<open>A page on which no locator finds anything.\<close>

definition emptyPage :: page where
  "emptyPage =
     \<lparr>skipButton = None, adContainer = False, bodySkipPhrase = False,
      skipTextElements = [], timeMatch = None, progressMatch = None,
      inspectionRaises = False, video = None, lengthSeconds = None,
      ariaValueNow = None, ariaValueMax = None, argsT = None\<rparr>"

text \<open>The globals of the inject script that the sequence and position logic uses.\<close>

record observer =
  isInAdSequence :: bool
  consecutiveAdCount :: int
  lastVideoContextTime :: real
  lastVideoContextDuration :: real
  videoPauseTime :: real
  isVideoPaused :: bool
  lastVideoCurrentTime :: real
  lastVideoDuration :: real
  adDurationTracker :: "duration_tracker option"

definition initialObserver :: observer where
  "initialObserver =
     \<lparr>isInAdSequence = False, consecutiveAdCount = 0, lastVideoContextTime = 0,
      lastVideoContextDuration = 0, videoPauseTime = 0, isVideoPaused = False,
      lastVideoCurrentTime = 0, lastVideoDuration = 0, adDurationTracker = None\<rparr>"

subsection \<open>Ad sequences\<close>

text \<open>
  \<open>resetAdDataVariables\<close> also clears strings that no decision reads. Among the
  variables it resets is \<open>isInAdSequence\<close>.
\<close>

definition resetAdDataVariables :: "observer \<Rightarrow> observer" where
  "resetAdDataVariables st =
     st\<lparr>videoPauseTime := 0, isVideoPaused := False, isInAdSequence := False\<rparr>"

definition startAdSequence :: "observer \<Rightarrow> observer" where
  "startAdSequence st =
     (if \<not> isInAdSequence st
      then resetAdDataVariables (st\<lparr>isInAdSequence := True, consecutiveAdCount := 0\<rparr>)
      else resetAdDataVariables (st\<lparr>consecutiveAdCount := consecutiveAdCount st + 1\<rparr>))"

definition endAdSequence :: "observer \<Rightarrow> observer" where
  "endAdSequence st =
     resetAdDataVariables (st\<lparr>isInAdSequence := False, consecutiveAdCount := 0\<rparr>)"

definition startAdDurationTracking :: "int \<Rightarrow> observer \<Rightarrow> observer" where
  "startAdDurationTracking now st =
     st\<lparr>adDurationTracker :=
          Some \<lparr>startTime = now, realDuration = None, progressUpdates = [],
                isTracking = True\<rparr>\<rparr>"

definition updateVideoContext ::
  "real \<Rightarrow> real \<Rightarrow> video_element \<Rightarrow> observer \<Rightarrow> observer" where
  "updateVideoContext currentTime totalDuration videoElement st =
     (let st1 = st\<lparr>lastVideoCurrentTime := currentTime, lastVideoDuration := totalDuration\<rparr>;
          st2 = (if paused videoElement \<and> \<not> isVideoPaused st1 \<and> currentTime > 0
                 then st1\<lparr>isVideoPaused := True, videoPauseTime := currentTime\<rparr>
                 else st1);
          st3 = (if \<not> paused videoElement \<and> isVideoPaused st2
                 then st2\<lparr>isVideoPaused := False\<rparr>
                 else st2)
      in if \<not> isInAdSequence st3
         then st3\<lparr>lastVideoContextTime := currentTime,
                  lastVideoContextDuration := totalDuration\<rparr>
         else if consecutiveAdCount st3 = 1
         then st3\<lparr>lastVideoContextTime := currentTime,
                  lastVideoContextDuration := totalDuration\<rparr>
         else st3)"

subsection \<open>Duration estimation\<close>

text \<open>\<open>Math.round\<close>.\<close>

definition mathRound :: "real \<Rightarrow> int" where
  "mathRound x = \<lfloor>x + 1 / 2\<rfloor>"

text \<open>
  \<open>getBestAdDuration\<close>, for a tracker that exists. With \<open>adDurationTracker\<close> null the
  source throws on its first line; \<open>detectAdTypeCommon\<close> models that case.
\<close>

definition getBestAdDuration ::
  "duration_tracker \<Rightarrow> video_element option \<Rightarrow> int \<times> bool \<times> duration_source" where
  "getBestAdDuration tracker videoElement =
     (if (case realDuration tracker of Some d \<Rightarrow> d > 0 | None \<Rightarrow> False)
      then (the (realDuration tracker), True, real_tracking)
      else if (case videoElement of
                 Some v \<Rightarrow> (case elementDuration v of
                              Some d \<Rightarrow> d > 0 \<and> d < 300
                            | None \<Rightarrow> False)
               | None \<Rightarrow> False)
      then (mathRound (the (elementDuration (the videoElement))), True, video_element_source)
      else
        (let updates = progressUpdates tracker;
             totalUpdates =
               filter (\<lambda>u. case total u of Some t \<Rightarrow> t > 0 | None \<Rightarrow> False) updates;
             skipUpdates = filter (\<lambda>u. remainingTime u \<noteq> None) updates
         in if totalUpdates \<noteq> []
            then (mathRound (the (total (last totalUpdates))), True, progress_total)
            else if length skipUpdates \<ge> 2
            then
              (let firstSkip = hd skipUpdates;
                   lastSkip = last skipUpdates;
                   timeDiff = real_of_int (timestamp lastSkip - timestamp firstSkip) / 1000;
                   firstRemaining = real_of_int (the (remainingTime firstSkip));
                   skipDiff = firstRemaining - real_of_int (the (remainingTime lastSkip));
                   estimatedTotal = firstRemaining + timeDiff * firstRemaining / skipDiff
               in if skipDiff > 0 \<and> timeDiff > 0 \<and> estimatedTotal > 0
                     \<and> estimatedTotal < 300
                  then (mathRound estimatedTotal, True, skip_calculation)
                  else (0, False, source_none))
            else (0, False, source_none)))"

text \<open>
  \<open>skipText.match(/(\d+)/)\<close> followed by \<open>parseInt\<close>: the value of the first maximal
  run of decimal digits.
\<close>

definition isDigit :: "char \<Rightarrow> bool" where
  "isDigit c = (c \<in> set ''0123456789'')"

definition digitValue :: "char \<Rightarrow> nat" where
  "digitValue c = of_char c - 48"

definition firstNumber :: "string \<Rightarrow> nat option" where
  "firstNumber s =
     (let digits = takeWhile isDigit (dropWhile (\<lambda>c. \<not> isDigit c) s)
      in if digits = [] then None
         else Some (foldl (\<lambda>n c. 10 * n + digitValue c) 0 digits))"

text \<open>The local \<open>skipText\<close>: the text of the skip button, else the first non-empty
  text found with \<open>AD_SELECTORS.skipText\<close>.\<close>

definition resolveSkipText :: "page \<Rightarrow> string" where
  "resolveSkipText pg =
     (let fromButton = (case skipButton pg of Some t \<Rightarrow> t | None \<Rightarrow> [])
      in if fromButton \<noteq> [] then fromButton
         else (case find (\<lambda>t. t \<noteq> []) (skipTextElements pg) of
                 Some t \<Rightarrow> t
               | None \<Rightarrow> []))"

text \<open>
  The locals \<open>isSkippable\<close>, \<open>adDuration\<close>, \<open>durationDetected\<close> and \<open>durationSource\<close>
  of \<open>detectAdTypeCommon\<close>, threaded through its consecutive \<open>if\<close> blocks.
\<close>

record estimate =
  skippableNow :: bool
  adDuration :: int
  detected :: bool
  source :: duration_source

text \<open>\<open>isSkippable\<close> before the duration is estimated: a skip button, a skip phrase in
  the page text, or a number in the skip text.\<close>

definition detectSkippable :: "page \<Rightarrow> bool" where
  "detectSkippable pg =
     (let isSkippable1 = (skipButton pg \<noteq> None);
          isSkippable2 = (isSkippable1 \<or> bodySkipPhrase pg);
          skipText' = resolveSkipText pg
      in isSkippable2 \<or> (skipText' \<noteq> [] \<and> firstNumber skipText' \<noteq> None))"

definition bestDurationStep ::
  "duration_tracker \<Rightarrow> video_element option \<Rightarrow> estimate \<Rightarrow> estimate" where
  "bestDurationStep tracker videoElement e =
     (let bestDuration = getBestAdDuration tracker videoElement
      in if fst bestDuration > 0
         then e\<lparr>adDuration := fst bestDuration, detected := fst (snd bestDuration),
                source := snd (snd bestDuration)\<rparr>
         else e)"

definition domTextStep :: "page \<Rightarrow> estimate \<Rightarrow> estimate" where
  "domTextStep pg e =
     (if adDuration e = 0 then
        (case timeMatch pg of
           None \<Rightarrow> e
         | Some (Clock m s) \<Rightarrow>
             e\<lparr>detected := True, source := dom_text, adDuration := int m * 60 + int s\<rparr>
         | Some (Seconds n) \<Rightarrow>
             e\<lparr>detected := True, source := dom_text,
               adDuration := (if n > 0 \<and> n < 300 then int n else adDuration e)\<rparr>
         | Some (Segundos n) \<Rightarrow> e\<lparr>detected := True, source := dom_text\<rparr>)
      else e)"

definition progressBarStep :: "page \<Rightarrow> estimate \<Rightarrow> estimate" where
  "progressBarStep pg e =
     (if adDuration e = 0 then
        (case progressMatch pg of
           None \<Rightarrow> e
         | Some (m, s) \<Rightarrow>
             e\<lparr>detected := True, source := progress_bar,
               adDuration := int m * 60 + int s\<rparr>)
      else e)"

definition skipInferenceStep :: "string \<Rightarrow> estimate \<Rightarrow> estimate" where
  "skipInferenceStep skipText' e =
     (if adDuration e = 0 \<and> skipText' \<noteq> [] then
        (case firstNumber skipText' of
           None \<Rightarrow> e
         | Some remainingTime' \<Rightarrow>
             if remainingTime' \<le> 6
             then e\<lparr>detected := True, source := skip_inference, adDuration := 6,
                    skippableNow := True\<rparr>
             else if remainingTime' \<le> 15
             then e\<lparr>detected := True, source := skip_inference, adDuration := 15,
                    skippableNow := True\<rparr>
             else if remainingTime' \<le> 20
             then e\<lparr>detected := True, source := skip_inference, adDuration := 20,
                    skippableNow := True\<rparr>
             else e)
      else e)"

definition estimationStep :: "bool \<Rightarrow> estimate \<Rightarrow> estimate" where
  "estimationStep adContainer' e =
     (if adDuration e = 0 then
        (let e1 = e\<lparr>source := estimation\<rparr>
         in if \<not> skippableNow e1 \<and> adContainer'
            then e1\<lparr>adDuration := 6, detected := False\<rparr>
            else if skippableNow e1 then e1\<lparr>adDuration := 30, detected := False\<rparr>
            else e1)
      else e)"

definition estimateDuration :: "page \<Rightarrow> duration_tracker \<Rightarrow> estimate" where
  "estimateDuration pg tracker =
     estimationStep (adContainer pg)
       (skipInferenceStep (resolveSkipText pg)
         (progressBarStep pg
           (domTextStep pg
             (bestDurationStep tracker (video pg)
               \<lparr>skippableNow = detectSkippable pg, adDuration = 0, detected = False,
                source = source_none\<rparr>))))"

subsection \<open>Type and position\<close>

definition deriveAdType :: "bool \<Rightarrow> int \<Rightarrow> bool \<Rightarrow> ad_type" where
  "deriveAdType isSkippable' adDuration' adContainer' =
     (if isSkippable' then skippable
      else if adDuration' > 0 then
        (if adDuration' \<le> 6 then bumper
         else if adDuration' \<le> 15 then non_skippable_short
         else if adDuration' \<le> 30 then non_skippable_medium
         else non_skippable_long)
      else if adContainer' then non_skippable
      else type_unknown)"

text \<open>The final branching of the position step, on \<open>videoCurrentTime\<close> and
  \<open>totalDuration\<close> as they stand after the context has been applied.\<close>

definition classifyPosition :: "video_element \<Rightarrow> real \<Rightarrow> real \<Rightarrow> ad_position" where
  "classifyPosition videoElement videoCurrentTime totalDuration =
     (if totalDuration > 0 then
        (let videoProgress = videoCurrentTime / totalDuration
         in if (ended videoElement \<or> \<bar>videoCurrentTime - totalDuration\<bar> < 3
                \<or> videoProgress \<ge> 0.9)
               \<and> \<not> paused videoElement
            then post_roll
            else if videoCurrentTime \<le> 10 \<or> videoProgress \<le> 0.05 then pre_roll
            else mid_roll)
      else
        (if ended videoElement \<or> videoCurrentTime \<ge> 300 then post_roll
         else if videoCurrentTime \<le> 10 then pre_roll
         else mid_roll))"

text \<open>The position step of \<open>detectAdTypeCommon\<close>, entered when the \<open>video\<close> element
  exists.\<close>

definition positionStep :: "video_element \<Rightarrow> page \<Rightarrow> observer \<Rightarrow> ad_position \<times> observer" where
  "positionStep videoElement pg st =
     (let totalDuration0 = (case lengthSeconds pg of Some l \<Rightarrow> l | None \<Rightarrow> 0);
          barOk = (case (ariaValueNow pg, ariaValueMax pg) of
                     (Some progress, Some mx) \<Rightarrow> mx > 0
                   | _ \<Rightarrow> False);
          videoCurrentTime1 = (if barOk then the (ariaValueNow pg) else 0);
          totalDuration1 = (if barOk \<and> totalDuration0 = 0 then the (ariaValueMax pg)
                            else totalDuration0);
          videoCurrentTime2 =
            (if videoCurrentTime1 = 0
             then (case argsT pg of Some t \<Rightarrow> t | None \<Rightarrow> videoCurrentTime1)
             else videoCurrentTime1);
          elementDuration' = (case elementDuration videoElement of Some d \<Rightarrow> d | None \<Rightarrow> 0);
          fromElement = (videoCurrentTime2 = 0 \<and> elementDuration' > 60);
          videoCurrentTime3 = (if fromElement then elementCurrentTime videoElement
                               else videoCurrentTime2);
          totalDuration3 = (if fromElement \<and> totalDuration1 = 0 then elementDuration'
                            else totalDuration1);
          st1 = (if videoCurrentTime3 > 0 \<and> totalDuration3 > 0
                 then updateVideoContext videoCurrentTime3 totalDuration3 videoElement st
                 else st);
          useContext = (consecutiveAdCount st1 > 1 \<and> lastVideoContextTime st1 > 0
                        \<and> lastVideoContextDuration st1 > 0);
          videoCurrentTime = (if useContext then lastVideoContextTime st1
                              else videoCurrentTime3);
          totalDuration = (if useContext then lastVideoContextDuration st1
                           else totalDuration3)
      in (classifyPosition videoElement videoCurrentTime totalDuration, st1))"

subsection \<open>The detection pass\<close>

text \<open>The object returned by the \<open>catch\<close> branch of \<open>detectAdTypeCommon\<close>.\<close>

definition catchDescriptor :: "int \<Rightarrow> observer \<Rightarrow> ad_descriptor" where
  "catchDescriptor now st =
     \<lparr>timestamp = now, adType = type_unknown, isSkippable = False, duration = 0,
      durationDetected = False, durationSource = source_none,
      adPosition = position_unknown, skipText = [],
      consecutiveAdNumber = consecutiveAdCount st\<rparr>"

text \<open>
  \<open>detectAdTypeCommon\<close>. Its parameter \<open>extractData\<close> only fills the overlay strings
  and is left out. \<open>startAdSequence\<close> runs before the \<open>try\<close> block. Inside the block
  an exception (a page call that throws, or \<open>getBestAdDuration\<close> reading a null
  tracker) leads to the \<open>catch\<close> branch; both happen before the position step, the
  only part of the block that writes globals.
\<close>

definition detectAdTypeCommon :: "page \<Rightarrow> int \<Rightarrow> observer \<Rightarrow> ad_descriptor \<times> observer" where
  "detectAdTypeCommon pg now st0 =
     (let st = startAdSequence st0 in
      if inspectionRaises pg then (catchDescriptor now st, st)
      else case adDurationTracker st of
        None \<Rightarrow> (catchDescriptor now st, st)
      | Some tracker \<Rightarrow>
         (let e = estimateDuration pg tracker;
              adType' = deriveAdType (skippableNow e) (adDuration e) (adContainer pg);
              positioned = (case video pg of
                              None \<Rightarrow> (position_unknown, st)
                            | Some videoElement \<Rightarrow> positionStep videoElement pg st)
          in (\<lparr>timestamp = now, adType = adType', isSkippable = skippableNow e,
               duration = adDuration e, durationDetected = detected e,
               durationSource = source e, adPosition = fst positioned,
               skipText = resolveSkipText pg,
               consecutiveAdNumber = consecutiveAdCount (snd positioned)\<rparr>,
              snd positioned)))"

text \<open>
  \<open>detectarPosicionAnuncio\<close>, the classifier that \<open>executeFullAdDataExtraction\<close>
  calls to overwrite the position of the descriptor. \<open>!videoDuration\<close> holds for
  \<open>0\<close>.
\<close>

definition detectarPosicionAnuncio ::
  "real \<Rightarrow> real \<Rightarrow> video_element option \<Rightarrow> observer \<Rightarrow> ad_position" where
  "detectarPosicionAnuncio adStartTime videoDuration video' st =
     (if videoDuration = 0 \<or> videoDuration < 30 then position_unknown
      else case video' of
        None \<Rightarrow> position_unknown
      | Some videoElement \<Rightarrow>
         (let referenceTime =
                (if videoPauseTime st > 0 then videoPauseTime st
                 else if lastVideoContextTime st > 0 then lastVideoContextTime st
                 else if adStartTime > 0 then adStartTime
                 else elementCurrentTime videoElement);
              finalVideoDuration =
                (if videoDuration = 0 \<and> lastVideoContextDuration st > 0
                 then lastVideoContextDuration st
                 else if videoDuration = 0
                 then (case elementDuration videoElement of Some d \<Rightarrow> d | None \<Rightarrow> 0)
                 else videoDuration);
              isVideoEnded = (ended videoElement \<or> readyState videoElement \<ge> 4);
              preRollThreshold = finalVideoDuration * 0.05;
              postRollThreshold = finalVideoDuration * 0.90;
              percentage = (if finalVideoDuration > 0
                            then referenceTime / finalVideoDuration else 0)
          in if referenceTime \<le> preRollThreshold \<or> referenceTime \<le> 10 then pre_roll
             else if referenceTime \<ge> postRollThreshold \<or> isVideoEnded \<or> percentage > 0.85
             then post_roll
             else mid_roll))"

text \<open>
  What \<open>trySendDebugInfo\<close> does when it sees an ad id that differs from the last one:
  it captures the time and duration of the \<open>video\<close> element as the context.
\<close>

definition captureVideoTime :: "page \<Rightarrow> observer \<Rightarrow> observer" where
  "captureVideoTime pg st =
     (case video pg of
        None \<Rightarrow> st
      | Some videoElement \<Rightarrow>
         (let currentTime = elementCurrentTime videoElement;
              duration0 = (case elementDuration videoElement of Some d \<Rightarrow> d | None \<Rightarrow> 0);
              duration' =
                (if duration0 = 0 then
                   (case lengthSeconds pg of
                      Some l \<Rightarrow> l
                    | None \<Rightarrow> (case ariaValueMax pg of
                                 Some mx \<Rightarrow> if mx > 0 then mx else duration0
                               | None \<Rightarrow> duration0))
                 else duration0)
          in st\<lparr>videoPauseTime := currentTime, lastVideoContextTime := currentTime,
                lastVideoContextDuration := duration'\<rparr>))"

text \<open>
  One poll of \<open>trySendDebugInfo\<close> that finds an ad active. \<open>newAdId\<close>: the ad id
  differs from the last one seen. \<open>contentChanged\<close>: \<open>detectConsecutiveAdChange\<close>
  finds a changed, non-empty text signature. The descriptor is the \<open>adTypeInfo\<close> of the
  event posted to the content script.
\<close>

definition adActivePoll ::
  "bool \<Rightarrow> bool \<Rightarrow> page \<Rightarrow> int \<Rightarrow> observer \<Rightarrow> ad_descriptor \<times> observer" where
  "adActivePoll newAdId contentChanged pg now st =
     detectAdTypeCommon pg now
       (if newAdId
        then resetAdDataVariables (startAdDurationTracking now (captureVideoTime pg st))
        else if contentChanged then resetAdDataVariables st
        else st)"

section \<open>Runs and predicates used to state the properties\<close>

text \<open>Consecutive polls with an ad active; the descriptors they produce.\<close>

fun adActivePolls :: "(bool \<times> bool \<times> page \<times> int) list \<Rightarrow> observer \<Rightarrow> ad_descriptor list" where
  "adActivePolls [] st = []"
| "adActivePolls ((newAdId, contentChanged, pg, now) # polls) st =
     fst (adActivePoll newAdId contentChanged pg now st)
     # adActivePolls polls (snd (adActivePoll newAdId contentChanged pg now st))"

text \<open>A pass completes when nothing throws inside the \<open>try\<close> block.\<close>

definition passCompletes :: "page \<Rightarrow> observer \<Rightarrow> bool" where
  "passCompletes pg st = (\<not> inspectionRaises pg \<and> adDurationTracker st \<noteq> None)"

text \<open>Consecutive calls of \<open>handleAdCounting\<close> for one tab: message, \<open>hasAd\<close>, clock.\<close>

fun adCountingRun :: "int \<Rightarrow> (debug_data \<times> bool \<times> int) list \<Rightarrow> coordinator \<Rightarrow> coordinator" where
  "adCountingRun tabId [] st = st"
| "adCountingRun tabId ((message, hasAd, now) # calls) st =
     adCountingRun tabId calls (handleAdCounting message tabId hasAd now st)"

text \<open>The number of stored impressions of ad \<open>a\<close> stamped at \<open>t0\<close> or later.\<close>

definition countedSince :: "string \<Rightarrow> int \<Rightarrow> coordinator \<Rightarrow> nat" where
  "countedSince a t0 st =
     length (filter (\<lambda>e. adId e = a \<and> t0 \<le> timestamp e) (adTimestamps st))"

text \<open>Every record with \<open>adActive\<close> set has a non-empty ad id.\<close>

definition tabInvariant :: "coordinator \<Rightarrow> bool" where
  "tabInvariant st =
     (\<forall>tabId d. debugDataByTab st tabId = Some d \<longrightarrow>
        (adActive d \<longrightarrow> truthy (addebug_videoId d)))"

text \<open>A request as the observer builds it: \<open>adActive\<close> is \<open>!!addebug_videoId\<close>.\<close>

definition observerBuilt :: "request \<Rightarrow> bool" where
  "observerBuilt req =
     (case req of
        VIDEO_DEBUG_ALL message \<Rightarrow> adActive message = truthy (addebug_videoId message)
      | _ \<Rightarrow> True)"

text \<open>Consecutive calls of \<open>sendMessage\<close>: message, clock, \<open>runtimeOk\<close>.\<close>

fun sendAll :: "(message \<times> int \<times> bool) list \<Rightarrow> content_script \<Rightarrow> content_script" where
  "sendAll [] st = st"
| "sendAll ((messageData, now, runtimeOk) # calls) st =
     sendAll calls (snd (sendMessage messageData now runtimeOk st))"

text \<open>
  \<open>resendFree lastOf msgs\<close>: no message of the list equals the message of its type
  sent last before it, where \<open>lastOf\<close> gives the last message of each type sent before
  the list. \<open>lastSent\<close> gives the last message of each type after the list.
\<close>

fun resendFree :: "(message_type \<Rightarrow> message option) \<Rightarrow> (message \<times> int) list \<Rightarrow> bool" where
  "resendFree lastOf [] = True"
| "resendFree lastOf ((m, t) # msgs) =
     (lastOf (messageType m) \<noteq> Some m \<and> resendFree (lastOf(messageType m := Some m)) msgs)"

fun lastSent ::
  "(message_type \<Rightarrow> message option) \<Rightarrow> (message \<times> int) list
   \<Rightarrow> (message_type \<Rightarrow> message option)" where
  "lastSent lastOf [] = lastOf"
| "lastSent lastOf ((m, t) # msgs) = lastSent (lastOf(messageType m := Some m)) msgs"

definition bufferOf :: "content_script \<Rightarrow> message_type \<Rightarrow> message option" where
  "bufferOf st ty =
     (case ty of
        VideoDebugAll \<Rightarrow> lastVideoDebugAll st
      | AdDetected \<Rightarrow> lastAdDetected st
      | AdEnded \<Rightarrow> lastAdEnded st)"

text \<open>Sent messages are at least 500 ms apart and none is later than \<open>lastSentTime\<close>.\<close>

definition spacedInv :: "content_script \<Rightarrow> bool" where
  "spacedInv st =
     (sorted_wrt (\<lambda>a b. 500 \<le> snd b - snd a) (sent st)
      \<and> (\<forall>x \<in> set (sent st). snd x \<le> lastSentTime st))"

text \<open>Nothing was resent and the buffer holds the last sent message of each type.\<close>

definition dedupInv :: "content_script \<Rightarrow> bool" where
  "dedupInv st =
     (resendFree (\<lambda>_. None) (sent st)
      \<and> (\<forall>ty. bufferOf st ty = lastSent (\<lambda>_. None) (sent st) ty))"

section \<open>Properties of the coordinator\<close>

subsection \<open>Helper lemmas\<close>

lemma handleAdCounting_cases:
  "handleAdCounting message tabId hasAd now st =
     (if hasAd \<and> truthy (addebug_videoId message)
         \<and> addebug_videoId message \<noteq> Some ''empty_video''
         \<and> \<not> (\<exists>l. lastCountedAdIdByTab st tabId = Some l
                  \<and> Some (adId l) = addebug_videoId message \<and> now - timestamp l \<le> 5000)
      then saveAdTimestamp (the (addebug_videoId message)) (adTypeInfo message) now
             (st\<lparr>lastCountedAdIdByTab := (lastCountedAdIdByTab st)(tabId \<mapsto>
                   \<lparr>timestamp = now, adId = the (addebug_videoId message)\<rparr>)\<rparr>)
      else st)"
  by (auto simp: handleAdCounting_def Let_def split: option.splits)

lemma countedSince_save:
  assumes "t0 \<le> now" "now \<le> t0 + 5000"
  shows "countedSince a t0 (saveAdTimestamp a' info now st) =
         countedSince a t0 st + (if a' = a then 1 else 0)"
proof -
  have "filter (\<lambda>e. adId e = a \<and> t0 \<le> timestamp e)
          (filter (\<lambda>item. now - timestamp item \<le> dayMs) (adTimestamps st))
        = filter (\<lambda>e. adId e = a \<and> t0 \<le> timestamp e) (adTimestamps st)"
    using assms by (auto simp: dayMs_def intro!: filter_cong)
  then show ?thesis
    using assms by (simp add: countedSince_def saveAdTimestamp_def)
qed

lemma run_after_count:
  assumes "\<forall>c \<in> set calls.
             (addebug_videoId (fst c) = Some a \<or> \<not> truthy (addebug_videoId (fst c)))
             \<and> t0 \<le> snd (snd c) \<and> snd (snd c) \<le> t0 + 5000"
      and "lastCountedAdIdByTab st tabId = Some l" "adId l = a" "t0 \<le> timestamp l"
  shows "adCountingRun tabId calls st = st"
  using assms
proof (induction calls arbitrary: st)
  case Nil
  then show ?case by simp
next
  case (Cons c calls)
  obtain message hasAd now where c: "c = (message, hasAd, now)" by (cases c) auto
  have "handleAdCounting message tabId hasAd now st = st"
    using Cons.prems c by (auto simp: handleAdCounting_cases)
  then show ?case using Cons c by simp
qed

lemma run_bound:
  assumes "\<forall>c \<in> set calls.
             (addebug_videoId (fst c) = Some a \<or> \<not> truthy (addebug_videoId (fst c)))
             \<and> t0 \<le> snd (snd c) \<and> snd (snd c) \<le> t0 + 5000"
  shows "countedSince a t0 (adCountingRun tabId calls st) \<le> countedSince a t0 st + 1"
  using assms
proof (induction calls arbitrary: st)
  case Nil
  then show ?case by simp
next
  case (Cons c calls)
  obtain message hasAd now where c: "c = (message, hasAd, now)" by (cases c) auto
  let ?st' = "handleAdCounting message tabId hasAd now st"
  have rest: "\<forall>c \<in> set calls.
                (addebug_videoId (fst c) = Some a \<or> \<not> truthy (addebug_videoId (fst c)))
                \<and> t0 \<le> snd (snd c) \<and> snd (snd c) \<le> t0 + 5000"
    using Cons.prems by simp
  have win: "t0 \<le> now" "now \<le> t0 + 5000" using Cons.prems c by auto
  show ?case
  proof (cases "?st' = st")
    case True
    then show ?thesis using Cons.IH[OF rest, of st] c by simp
  next
    case False
    then have counted:
      "?st' = saveAdTimestamp (the (addebug_videoId message)) (adTypeInfo message) now
                (st\<lparr>lastCountedAdIdByTab := (lastCountedAdIdByTab st)(tabId \<mapsto>
                      \<lparr>timestamp = now, adId = the (addebug_videoId message)\<rparr>)\<rparr>)"
      and tr: "truthy (addebug_videoId message)"
      by (auto simp: handleAdCounting_cases split: if_splits)
    have ida: "addebug_videoId message = Some a" using tr Cons.prems c by auto
    have last: "lastCountedAdIdByTab ?st' tabId = Some \<lparr>timestamp = now, adId = a\<rparr>"
      using counted ida by (simp add: saveAdTimestamp_def)
    have "adCountingRun tabId calls ?st' = ?st'"
      by (rule run_after_count[OF rest last]) (use win in auto)
    moreover have "countedSince a t0 ?st' = countedSince a t0 st + 1"
      using counted ida countedSince_save[OF win, of a a]
      by (simp add: countedSince_def saveAdTimestamp_def)
    ultimately show ?thesis using c by simp
  qed
qed

lemma updateBadge_data:
  "debugDataByTab (updateBadge tabId hasAd st) = debugDataByTab st"
  "adTimestamps (updateBadge tabId hasAd st) = adTimestamps st"
  by (simp_all add: updateBadge_def)

lemma handleAdCounting_data:
  "debugDataByTab (handleAdCounting message tabId hasAd now st) = debugDataByTab st"
  by (simp add: handleAdCounting_cases saveAdTimestamp_def)

lemma handleVideoCounting_data:
  "debugDataByTab (handleVideoCounting tabId now st) = debugDataByTab st"
  "adTimestamps (handleVideoCounting tabId now st) = adTimestamps st"
  by (auto simp: handleVideoCounting_def videoStorageCallback_def split: option.splits)

lemma handleAdCounting_entries:
  "e \<in> set (adTimestamps (handleAdCounting message tabId hasAd now st)) \<Longrightarrow>
     e \<in> set (adTimestamps st) \<or> (adId e \<noteq> [] \<and> adId e \<noteq> ''empty_video'')"
  by (auto simp: handleAdCounting_def Let_def saveAdTimestamp_def
        split: option.splits if_splits)

lemma onVideoDebugAll_invariant:
  assumes "tabInvariant st" "adActive message = truthy (addebug_videoId message)"
  shows "tabInvariant (onVideoDebugAll message tabId now st)"
  using assms
  by (auto simp: tabInvariant_def onVideoDebugAll_def Let_def updateTabData_def
        createEmptyTabData_def updateBadge_data handleAdCounting_data
        handleVideoCounting_data split: option.splits if_splits)

lemma onVideoDebugAll_entries:
  "e \<in> set (adTimestamps (onVideoDebugAll message tabId now st)) \<Longrightarrow>
     e \<in> set (adTimestamps st) \<or> (adId e \<noteq> [] \<and> adId e \<noteq> ''empty_video'')"
  by (auto simp: onVideoDebugAll_def Let_def updateTabData_def updateBadge_data
        handleVideoCounting_data dest!: handleAdCounting_entries split: if_splits)

lemma onMessage_invariant:
  assumes "tabInvariant st" "observerBuilt req"
  shows "tabInvariant (snd (onMessage req sender now st))"
proof (cases req)
  case (VIDEO_DEBUG_ALL message)
  then show ?thesis
    using assms onVideoDebugAll_invariant[of st message]
    by (auto simp: observerBuilt_def split: option.splits)
next
  case AD_ENDED
  then show ?thesis using assms
    by (auto simp: tabInvariant_def Let_def updateBadge_data split: option.splits if_splits)
next
  case (GET_DEBUG_INFO a)
  then show ?thesis using assms
    by (auto simp: tabInvariant_def Let_def updateBadge_data split: option.splits if_splits)
qed (use assms in \<open>auto simp: tabInvariant_def Let_def updateBadge_data split: option.splits\<close>)

lemma onMessage_entries:
  "e \<in> set (adTimestamps (snd (onMessage req sender now st))) \<Longrightarrow>
     e \<in> set (adTimestamps st) \<or> (adId e \<noteq> [] \<and> adId e \<noteq> ''empty_video'')"
proof (cases req)
  case (VIDEO_DEBUG_ALL message)
  then show "e \<in> set (adTimestamps (snd (onMessage req sender now st))) \<Longrightarrow> ?thesis"
    using onVideoDebugAll_entries[of e message]
    by (auto split: option.splits if_splits)
qed (auto simp: Let_def updateBadge_data split: option.splits if_splits)

subsection \<open>Counting ads\<close>

text \<open>
  Claim C5 as stated fails. Tab 7 reports ad \<open>adA_video01\<close>, one second later ad
  \<open>adB_video02\<close>, and one second after that \<open>adA_video01\<close> again. The coordinator
  remembers only the last counted ad of a tab, so the second report of
  \<open>adA_video01\<close> is stored although the same id was counted for this tab two seconds
  before.
\<close>

theorem ad_recounted_within_window_counterexample:
  "map adId (adTimestamps (snd
     (onMessage (VIDEO_DEBUG_ALL
         (videoDebugAll ''debug'' emptyDebugInfo (Some ''adA_video01'') None None))
        (Some 7) 1002000 (snd
     (onMessage (VIDEO_DEBUG_ALL
         (videoDebugAll ''debug'' emptyDebugInfo (Some ''adB_video02'') None None))
        (Some 7) 1001000 (snd
     (onMessage (VIDEO_DEBUG_ALL
         (videoDebugAll ''debug'' emptyDebugInfo (Some ''adA_video01'') None None))
        (Some 7) 1000000 initialCoordinator)))))))
   = [''adA_video01'', ''adB_video02'', ''adA_video01'']"
  by code_simp

text \<open>
  Claim C5, amended. When \<open>handleAdCounting\<close> processes an ad-activity change with an
  ad id that is non-empty and not \<open>empty_video\<close>, it prunes the ad collection and
  appends one entry, unless the ad counted last for that tab has the same id and was
  counted no more than 5000 ms before; in every other case the collection is left as it
  is. Hence for a run of calls for one tab that all fall into one window of 5000 ms and
  carry either the ad id \<open>a\<close> or no ad id, the number of stored impressions of \<open>a\<close>
  grows by at most one.
\<close>

theorem ad_counted_once_per_window:
  "adTimestamps (handleAdCounting message tabId hasAd now st) =
     (if hasAd \<and> truthy (addebug_videoId message)
         \<and> addebug_videoId message \<noteq> Some ''empty_video''
         \<and> \<not> (\<exists>l. lastCountedAdIdByTab st tabId = Some l
                  \<and> Some (adId l) = addebug_videoId message \<and> now - timestamp l \<le> 5000)
      then filter (\<lambda>item. now - timestamp item \<le> dayMs) (adTimestamps st)
           @ [\<lparr>timestamp = now, adId = the (addebug_videoId message),
               entryTypeInfo = adTypeInfo message\<rparr>]
      else adTimestamps st)
   \<and> ((\<forall>c \<in> set calls.
          (addebug_videoId (fst c) = Some a \<or> \<not> truthy (addebug_videoId (fst c)))
          \<and> t0 \<le> snd (snd c) \<and> snd (snd c) \<le> t0 + 5000)
        \<longrightarrow> countedSince a t0 (adCountingRun tabId calls st) \<le> countedSince a t0 st + 1)"
proof -
  have "adTimestamps (saveAdTimestamp (the (addebug_videoId message)) (adTypeInfo message) now
          (st\<lparr>lastCountedAdIdByTab := (lastCountedAdIdByTab st)(tabId \<mapsto>
                \<lparr>timestamp = now, adId = the (addebug_videoId message)\<rparr>)\<rparr>))
        = filter (\<lambda>item. now - timestamp item \<le> dayMs) (adTimestamps st)
          @ [\<lparr>timestamp = now, adId = the (addebug_videoId message),
              entryTypeInfo = adTypeInfo message\<rparr>]"
    by (simp add: saveAdTimestamp_def)
  then have "adTimestamps (handleAdCounting message tabId hasAd now st) =
     (if hasAd \<and> truthy (addebug_videoId message)
         \<and> addebug_videoId message \<noteq> Some ''empty_video''
         \<and> \<not> (\<exists>l. lastCountedAdIdByTab st tabId = Some l
                  \<and> Some (adId l) = addebug_videoId message \<and> now - timestamp l \<le> 5000)
      then filter (\<lambda>item. now - timestamp item \<le> dayMs) (adTimestamps st)
           @ [\<lparr>timestamp = now, adId = the (addebug_videoId message),
               entryTypeInfo = adTypeInfo message\<rparr>]
      else adTimestamps st)"
    by (subst handleAdCounting_cases) (simp only: if_distrib[of adTimestamps])
  then show ?thesis
    using run_bound[of calls a t0 tabId st] by blast
qed

text \<open>
  A run for claim C5: ad \<open>adA_video01\<close> turns on, off and on again within four
  seconds on tab 7; it is stored once.
\<close>

theorem ad_counted_once_per_window_witness:
  "countedSince ''adA_video01'' 1000000
     (adCountingRun 7
        [(videoDebugAll ''debug'' emptyDebugInfo (Some ''adA_video01'') None None, True, 1000000),
         (videoDebugAll ''debug'' emptyDebugInfo None None None, False, 1002000),
         (videoDebugAll ''debug'' emptyDebugInfo (Some ''adA_video01'') None None, True, 1004000)]
        initialCoordinator)
   \<le> countedSince ''adA_video01'' 1000000 initialCoordinator + 1"
  using ad_counted_once_per_window
    [of "videoDebugAll ''debug'' emptyDebugInfo None None None" 7 False 0 initialCoordinator
        "[(videoDebugAll ''debug'' emptyDebugInfo (Some ''adA_video01'') None None, True, 1000000),
          (videoDebugAll ''debug'' emptyDebugInfo None None None, False, 1002000),
          (videoDebugAll ''debug'' emptyDebugInfo (Some ''adA_video01'') None None, True, 1004000)]"
        "''adA_video01''" 1000000]
  by (simp add: videoDebugAll_def)

subsection \<open>Counting videos\<close>

text \<open>
  Claim C6. \<open>GET_VIDEOS_LAST_24H\<close> answers with the number of distinct video ids that
  have an entry no older than 24 hours, however many entries each id has.
\<close>

theorem get_videos_24h_counts_distinct_ids:
  "fst (onMessage GET_VIDEOS_LAST_24H sender now st) =
     CountResponse
       (card (videoId ` {item \<in> set (videoTimestamps st). now - timestamp item \<le> dayMs}))"
proof -
  have "set (map videoId (filter (\<lambda>item. now - timestamp item \<le> dayMs) (videoTimestamps st)))
        = videoId ` {item \<in> set (videoTimestamps st). now - timestamp item \<le> dayMs}"
    by auto
  then show ?thesis
    by (simp add: Let_def length_remdups_card_conv)
qed

text \<open>
  Claim C10. \<open>handleVideoCounting\<close> never appends an entry for a video id shorter than
  10 characters: every entry of the video collection after the call was there before
  or has an id of length at least 10.
\<close>

theorem video_counting_min_length:
  "\<forall>e \<in> set (videoTimestamps (handleVideoCounting tabId now st)).
     e \<in> set (videoTimestamps st) \<or> 10 \<le> length (videoId e)"
  by (auto simp: handleVideoCounting_def videoStorageCallback_def
        split: option.splits if_splits)

text \<open>
  An instance for claim C10: tab 7 shows the video \<open>dQw4w9WgXcQ\<close> and the collection
  is empty; the call stores one entry, and its id has 11 characters.
\<close>

theorem video_counting_min_length_witness:
  "list_all (\<lambda>e. 10 \<le> length (videoId e))
     (videoTimestamps (handleVideoCounting 7 1000000
        (initialCoordinator\<lparr>debugDataByTab :=
           [7 \<mapsto> (createEmptyTabData 0)\<lparr>debug_videoId := Some ''dQw4w9WgXcQ''\<rparr>]\<rparr>)))
   \<and> length (videoTimestamps (handleVideoCounting 7 1000000
        (initialCoordinator\<lparr>debugDataByTab :=
           [7 \<mapsto> (createEmptyTabData 0)\<lparr>debug_videoId := Some ''dQw4w9WgXcQ''\<rparr>]\<rparr>))) = 1"
proof -
  have "length (videoTimestamps (handleVideoCounting 7 1000000
        (initialCoordinator\<lparr>debugDataByTab :=
           [7 \<mapsto> (createEmptyTabData 0)\<lparr>debug_videoId := Some ''dQw4w9WgXcQ''\<rparr>]\<rparr>))) = 1"
    by code_simp
  then show ?thesis
    using video_counting_min_length[of 7 1000000
        "initialCoordinator\<lparr>debugDataByTab :=
           [7 \<mapsto> (createEmptyTabData 0)\<lparr>debug_videoId := Some ''dQw4w9WgXcQ''\<rparr>]\<rparr>"]
    by (simp add: list_all_iff initialCoordinator_def)
qed

subsection \<open>The per-tab record\<close>

text \<open>
  Claim C7 as stated fails. An observation event whose ad id is the placeholder
  \<open>empty_video\<close> leaves tab 7 with \<open>adActive\<close> set and that placeholder as its
  current ad id.
\<close>

theorem ad_active_with_placeholder_counterexample:
  "map_option adActive
     (debugDataByTab (snd (onMessage
        (VIDEO_DEBUG_ALL
           (videoDebugAll ''debug'' emptyDebugInfo (Some ''empty_video'') None None))
        (Some 7) 1000000 initialCoordinator)) 7) = Some True
   \<and> map_option addebug_videoId
     (debugDataByTab (snd (onMessage
        (VIDEO_DEBUG_ALL
           (videoDebugAll ''debug'' emptyDebugInfo (Some ''empty_video'') None None))
        (Some 7) 1000000 initialCoordinator)) 7) = Some (Some ''empty_video'')"
  by code_simp

text \<open>
  Claim C7, amended. For requests as the observer builds them (\<open>adActive\<close> is
  \<open>!!addebug_videoId\<close>), every message-handling step preserves: whenever a record has
  \<open>adActive\<close> set, its current ad id is non-empty. The id may be the placeholder
  \<open>empty_video\<close>; the placeholder is kept out of the ad collection only: every entry a
  step appends there has an id that is non-empty and not \<open>empty_video\<close>.
\<close>

theorem ad_active_has_ad_id:
  assumes "tabInvariant st" and "observerBuilt req"
  shows "tabInvariant (snd (onMessage req sender now st))
     \<and> (\<forall>e \<in> set (adTimestamps (snd (onMessage req sender now st))).
           e \<in> set (adTimestamps st) \<or> (adId e \<noteq> [] \<and> adId e \<noteq> ''empty_video''))"
  using onMessage_invariant[OF assms] onMessage_entries[of _ req sender now st]
  by blast

text \<open>
  An instance for claim C7: the first observation event of tab 7, with an ad active.
\<close>

theorem ad_active_has_ad_id_witness:
  "tabInvariant initialCoordinator
   \<and> observerBuilt (VIDEO_DEBUG_ALL
        (videoDebugAll ''debug'' emptyDebugInfo (Some ''adA_video01'') None None))
   \<and> tabInvariant (snd (onMessage
        (VIDEO_DEBUG_ALL (videoDebugAll ''debug'' emptyDebugInfo (Some ''adA_video01'') None None))
        (Some 7) 1000000 initialCoordinator))"
proof -
  have a: "tabInvariant initialCoordinator"
    by (simp add: tabInvariant_def initialCoordinator_def)
  have b: "observerBuilt (VIDEO_DEBUG_ALL
        (videoDebugAll ''debug'' emptyDebugInfo (Some ''adA_video01'') None None))"
    by (simp add: observerBuilt_def videoDebugAll_def)
  show ?thesis
    using a b ad_active_has_ad_id[OF a b, of "Some 7" 1000000] by simp
qed

subsection \<open>Reset\<close>

text \<open>
  Claim C9. \<open>RESET_COUNTERS\<close> answers \<open>{success: true}\<close>, and a following
  \<open>GET_ADS_LAST_24H\<close> and a following \<open>GET_VIDEOS_LAST_24H\<close> each answer
  \<open>{count: 0}\<close>, whatever the two collections held before, also when both queries are
  made one after the other.
\<close>

theorem reset_then_counts_are_zero:
  "fst (onMessage RESET_COUNTERS s0 t0 st) = SuccessResponse True
   \<and> fst (onMessage GET_ADS_LAST_24H s1 t1 (snd (onMessage RESET_COUNTERS s0 t0 st)))
       = CountResponse 0
   \<and> fst (onMessage GET_VIDEOS_LAST_24H s2 t2 (snd (onMessage RESET_COUNTERS s0 t0 st)))
       = CountResponse 0
   \<and> fst (onMessage GET_VIDEOS_LAST_24H s2 t2
            (snd (onMessage GET_ADS_LAST_24H s1 t1 (snd (onMessage RESET_COUNTERS s0 t0 st)))))
       = CountResponse 0"
  by (simp add: Let_def)

section \<open>Properties of the content script\<close>

subsection \<open>Helper lemmas\<close>

lemma resendFree_append:
  "resendFree lastOf (msgs @ [(m, t)]) =
     (resendFree lastOf msgs \<and> lastSent lastOf msgs (messageType m) \<noteq> Some m)"
  by (induction lastOf msgs rule: resendFree.induct) (auto simp del: fun_upd_apply)

lemma lastSent_append:
  "lastSent lastOf (msgs @ [(m, t)]) = (lastSent lastOf msgs)(messageType m := Some m)"
  by (induction lastOf msgs rule: lastSent.induct) (simp_all del: fun_upd_apply)


lemma bufferOf_simps [simp]:
  "bufferOf st VideoDebugAll = lastVideoDebugAll st"
  "bufferOf st AdDetected = lastAdDetected st"
  "bufferOf st AdEnded = lastAdEnded st"
  by (simp_all add: bufferOf_def)

lemma sendMessage_sent:
  "sent (snd (sendMessage m now ok st)) =
     (if 500 \<le> now - lastSentTime st \<and> \<not> isMessageSimilar (Some m) (bufferOf st (messageType m)) \<and> ok
      then sent st @ [(m, now)] else sent st)"
  by (cases "messageType m") (auto simp: sendMessage_def Let_def)

lemma sendMessage_lastSentTime:
  "lastSentTime (snd (sendMessage m now ok st)) =
     (if 500 \<le> now - lastSentTime st \<and> \<not> isMessageSimilar (Some m) (bufferOf st (messageType m)) \<and> ok
      then now else lastSentTime st)"
  by (cases "messageType m") (auto simp: sendMessage_def Let_def)

lemma sendMessage_buffer:
  "bufferOf (snd (sendMessage m now ok st)) ty =
     (if 500 \<le> now - lastSentTime st \<and> \<not> isMessageSimilar (Some m) (bufferOf st (messageType m))
         \<and> ty = messageType m
      then Some m else bufferOf st ty)"
  by (cases "messageType m"; cases ty) (auto simp: sendMessage_def Let_def)

lemma sendMessage_spaced:
  assumes "spacedInv st"
  shows "spacedInv (snd (sendMessage m now ok st))"
proof (cases "500 \<le> now - lastSentTime st
              \<and> \<not> isMessageSimilar (Some m) (bufferOf st (messageType m)) \<and> ok")
  case True
  have old: "sorted_wrt (\<lambda>a b. 500 \<le> snd b - snd a) (sent st)"
    and le: "\<And>x. x \<in> set (sent st) \<Longrightarrow> snd x \<le> lastSentTime st"
    using assms by (simp_all add: spacedInv_def)
  have far: "500 \<le> now - snd x" if "x \<in> set (sent st)" for x
  proof -
    have "snd x \<le> lastSentTime st" using le that by simp
    moreover have "500 \<le> now - lastSentTime st" using True by simp
    ultimately show ?thesis by linarith
  qed
  have s1: "sorted_wrt (\<lambda>a b. 500 \<le> snd b - snd a) (sent st @ [(m, now)])"
    using old far by (simp add: sorted_wrt_append)
  have s2: "snd x \<le> now" if "x \<in> set (sent st)" for x
    using far[OF that] by linarith
  have sent': "sent (snd (sendMessage m now ok st)) = sent st @ [(m, now)]"
    and time': "lastSentTime (snd (sendMessage m now ok st)) = now"
    using True by (simp_all add: sendMessage_sent sendMessage_lastSentTime)
  show ?thesis
    unfolding spacedInv_def sent' time' using s1 s2 by simp
next
  case False
  have sent': "sent (snd (sendMessage m now ok st)) = sent st"
    and time': "lastSentTime (snd (sendMessage m now ok st)) = lastSentTime st"
    using False by (simp_all add: sendMessage_sent sendMessage_lastSentTime)
  show ?thesis
    unfolding spacedInv_def sent' time' using assms by (simp add: spacedInv_def)
qed

lemma sendAll_spaced: "spacedInv st \<Longrightarrow> spacedInv (sendAll calls st)"
  by (induction calls st rule: sendAll.induct) (simp_all add: sendMessage_spaced)

lemma lastSent_type:
  "(\<forall>ty m. lastOf ty = Some m \<longrightarrow> messageType m = ty) \<Longrightarrow>
   lastSent lastOf msgs ty = Some m \<Longrightarrow> messageType m = ty"
proof (induction lastOf msgs rule: lastSent.induct)
  case (1 lastOf)
  from "1.prems"(2) have "lastOf ty = Some m" by simp
  with "1.prems"(1) show ?case by blast
next
  case (2 lastOf m' t msgs)
  have "messageType x = k" if upd: "(lastOf(messageType m' := Some m')) k = Some x" for k x
  proof (cases "k = messageType m'")
    case True
    with upd show ?thesis by simp
  next
    case False
    with upd have "lastOf k = Some x" by simp
    with "2.prems"(1) show ?thesis by blast
  qed
  then have "\<forall>ty m. (lastOf(messageType m' := Some m')) ty = Some m \<longrightarrow> messageType m = ty"
    by blast
  moreover have "lastSent (lastOf(messageType m' := Some m')) msgs ty = Some m"
    using "2.prems"(2) by simp
  ultimately show ?case
    by (rule "2.IH")
qed

lemma similar_same:
  fixes m b :: message
  assumes "messageType b = messageType m"
  shows "(json m = json b) = (b = m)"
  using assms by (cases m; cases b) auto

lemma sendMessage_dedup:
  assumes "dedupInv st"
  shows "dedupInv (snd (sendMessage m now True st))"
proof -
  have buf: "\<And>ty. bufferOf st ty = lastSent (\<lambda>_. None) (sent st) ty"
    and free: "resendFree (\<lambda>_. None) (sent st)"
    using assms by (auto simp: dedupInv_def)
  have ty: "messageType b = messageType m" if b: "bufferOf st (messageType m) = Some b" for b
  proof (rule lastSent_type)
    show "\<forall>ty x. (\<lambda>_. None) ty = Some x \<longrightarrow> messageType x = ty" by simp
    show "lastSent (\<lambda>_. None) (sent st) (messageType m) = Some b"
      using b buf[of "messageType m"] by simp
  qed
  have sim: "isMessageSimilar (Some m) (bufferOf st (messageType m))
             = (bufferOf st (messageType m) = Some m)"
  proof (cases "bufferOf st (messageType m)")
    case None
    then show ?thesis by simp
  next
    case (Some b)
    then show ?thesis using similar_same[OF ty[OF Some]] by simp
  qed
  show ?thesis
  proof (cases "500 \<le> now - lastSentTime st \<and> bufferOf st (messageType m) \<noteq> Some m")
    case True
    have sent': "sent (snd (sendMessage m now True st)) = sent st @ [(m, now)]"
      using True by (simp add: sendMessage_sent sim)
    have buf': "bufferOf (snd (sendMessage m now True st)) ty
                = (if ty = messageType m then Some m else bufferOf st ty)" for ty
      using True by (simp add: sendMessage_buffer sim)
    have "lastSent (\<lambda>_. None) (sent st) (messageType m) \<noteq> Some m"
      using True buf by simp
    then have r: "resendFree (\<lambda>_. None) (sent st @ [(m, now)])"
      using free by (simp add: resendFree_append)
    have l: "lastSent (\<lambda>_. None) (sent st @ [(m, now)]) ty
             = (if ty = messageType m then Some m else bufferOf st ty)" for ty
      by (simp add: lastSent_append buf)
    show ?thesis
      unfolding dedupInv_def sent' using r buf' l by simp
  next
    case False
    have sent': "sent (snd (sendMessage m now True st)) = sent st"
      using False by (simp add: sendMessage_sent sim)
    have buf': "bufferOf (snd (sendMessage m now True st)) ty = bufferOf st ty" for ty
      using False by (auto simp: sendMessage_buffer sim)
    show ?thesis
      unfolding dedupInv_def sent' using free buf buf' by simp
  qed
qed

lemma sendAll_dedup:
  "dedupInv st \<Longrightarrow> \<forall>c \<in> set calls. snd (snd c) \<Longrightarrow> dedupInv (sendAll calls st)"
  by (induction calls st rule: sendAll.induct) (simp_all add: sendMessage_dedup)

subsection \<open>De-duplication and rate limit\<close>

text \<open>
  Claim C8 does not hold in the code. The same \<open>VIDEO_DEBUG_ALL\<close> message is offered
  three times, one second apart, with a different one in between whose send attempt
  fails (\<open>chrome.runtime.sendMessage\<close> throws). \<open>sendMessage\<close> has written the failed
  message into its buffer before the attempt, so the third call finds no duplicate and
  sends a message identical to the last message sent.
\<close>

theorem resend_after_failed_send:
  "sent (sendAll
     [(\<lparr>messageType = VideoDebugAll, json = ''adActive:false''\<rparr>, 1000000, True),
      (\<lparr>messageType = VideoDebugAll, json = ''adActive:true''\<rparr>, 1001000, False),
      (\<lparr>messageType = VideoDebugAll, json = ''adActive:false''\<rparr>, 1002000, True)]
     initialContentScript)
   = [(\<lparr>messageType = VideoDebugAll, json = ''adActive:false''\<rparr>, 1000000),
      (\<lparr>messageType = VideoDebugAll, json = ''adActive:false''\<rparr>, 1002000)]
   \<and> \<not> resendFree (\<lambda>_. None) (sent (sendAll
     [(\<lparr>messageType = VideoDebugAll, json = ''adActive:false''\<rparr>, 1000000, True),
      (\<lparr>messageType = VideoDebugAll, json = ''adActive:true''\<rparr>, 1001000, False),
      (\<lparr>messageType = VideoDebugAll, json = ''adActive:false''\<rparr>, 1002000, True)]
     initialContentScript))"
  by code_simp

text \<open>
  The same write before the attempt keeps a message whose only attempt failed from
  ever being sent: the retry is taken for a duplicate.
\<close>

lemma failed_message_is_suppressed:
  "sent (sendAll
     [(\<lparr>messageType = VideoDebugAll, json = ''adActive:true''\<rparr>, 1001000, False),
      (\<lparr>messageType = VideoDebugAll, json = ''adActive:true''\<rparr>, 1002000, True),
      (\<lparr>messageType = VideoDebugAll, json = ''adActive:true''\<rparr>, 1003000, True)]
     initialContentScript) = []"
  by code_simp

text \<open>
  What the code does keep. For every sequence of calls from the initial buffer, no
  two messages are sent less than 500 ms apart, whatever their content; and in a
  sequence without a failed send attempt, no message equals the message of its type
  sent last before it.
\<close>

lemma send_spaced_and_deduplicated:
  "sorted_wrt (\<lambda>a b. 500 \<le> snd b - snd a) (sent (sendAll calls initialContentScript))
   \<and> ((\<forall>c \<in> set calls. snd (snd c)) \<longrightarrow>
        resendFree (\<lambda>_. None) (sent (sendAll calls initialContentScript)))"
proof -
  have "spacedInv initialContentScript" "dedupInv initialContentScript"
    by (auto simp: spacedInv_def dedupInv_def initialContentScript_def bufferOf_def
          split: message_type.splits)
  then show ?thesis
    using sendAll_spaced[of initialContentScript calls]
      sendAll_dedup[of initialContentScript calls]
    by (auto simp: spacedInv_def dedupInv_def)
qed

section \<open>Properties of the inject script\<close>

subsection \<open>Helper lemmas\<close>

lemma classifyPosition_known:
  "classifyPosition videoElement t d \<in> {pre_roll, mid_roll, post_roll}"
  unfolding classifyPosition_def Let_def by (simp split: if_splits)

lemma positionStep_known:
  "fst (positionStep videoElement pg st) \<in> {pre_roll, mid_roll, post_roll}"
  unfolding positionStep_def Let_def fst_conv by (rule classifyPosition_known)

lemma startAdSequence_tracker [simp]:
  "adDurationTracker (startAdSequence st) = adDurationTracker st"
  by (simp add: startAdSequence_def resetAdDataVariables_def)

lemma bestDurationStep_nonneg: "0 \<le> adDuration e \<Longrightarrow> 0 \<le> adDuration (bestDurationStep tracker v e)"
  by (simp add: bestDurationStep_def Let_def)

lemma domTextStep_nonneg: "0 \<le> adDuration e \<Longrightarrow> 0 \<le> adDuration (domTextStep pg e)"
  by (simp add: domTextStep_def split: option.splits time_match.splits)

lemma progressBarStep_nonneg: "0 \<le> adDuration e \<Longrightarrow> 0 \<le> adDuration (progressBarStep pg e)"
  by (simp add: progressBarStep_def split: option.splits prod.splits)

lemma skipInferenceStep_nonneg: "0 \<le> adDuration e \<Longrightarrow> 0 \<le> adDuration (skipInferenceStep t e)"
  by (simp add: skipInferenceStep_def split: option.splits)

lemma estimationStep_zero:
  "0 \<le> adDuration e \<Longrightarrow>
   0 \<le> adDuration (estimationStep c e)
   \<and> (adDuration (estimationStep c e) = 0 \<longrightarrow> \<not> skippableNow (estimationStep c e) \<and> \<not> c)"
  by (simp add: estimationStep_def Let_def)

lemma estimateDuration_zero:
  "0 \<le> adDuration (estimateDuration pg tracker)
   \<and> (adDuration (estimateDuration pg tracker) = 0 \<longrightarrow>
        \<not> skippableNow (estimateDuration pg tracker) \<and> \<not> adContainer pg)"
  unfolding estimateDuration_def
  by (intro estimationStep_zero skipInferenceStep_nonneg progressBarStep_nonneg
        domTextStep_nonneg bestDurationStep_nonneg) simp

lemma detect_completes:
  assumes "\<not> inspectionRaises pg" "adDurationTracker st = Some tracker"
  shows "fst (detectAdTypeCommon pg now st) =
     \<lparr>timestamp = now,
      adType = deriveAdType (skippableNow (estimateDuration pg tracker))
                 (adDuration (estimateDuration pg tracker)) (adContainer pg),
      isSkippable = skippableNow (estimateDuration pg tracker),
      duration = adDuration (estimateDuration pg tracker),
      durationDetected = detected (estimateDuration pg tracker),
      durationSource = source (estimateDuration pg tracker),
      adPosition = fst (case video pg of None \<Rightarrow> (position_unknown, startAdSequence st)
                        | Some videoElement \<Rightarrow> positionStep videoElement pg (startAdSequence st)),
      skipText = resolveSkipText pg,
      consecutiveAdNumber = consecutiveAdCount
         (snd (case video pg of None \<Rightarrow> (position_unknown, startAdSequence st)
               | Some videoElement \<Rightarrow> positionStep videoElement pg (startAdSequence st)))\<rparr>"
  using assms by (simp add: detectAdTypeCommon_def Let_def)

lemma detect_raises:
  assumes "inspectionRaises pg \<or> adDurationTracker st = None"
  shows "fst (detectAdTypeCommon pg now st) = catchDescriptor now (startAdSequence st)"
  using assms by (auto simp: detectAdTypeCommon_def Let_def)

lemma firstNumber_skip4: "firstNumber ''Skip in 4'' = Some 4"
  by code_simp


lemma getBestAdDuration_source:
  "snd (snd (getBestAdDuration tracker v)) \<noteq> estimation"
  unfolding getBestAdDuration_def Let_def by (simp split: if_splits)

lemma bestDurationStep_source:
  "source e \<noteq> estimation \<Longrightarrow> source (bestDurationStep tracker v e) \<noteq> estimation"
  by (simp add: bestDurationStep_def Let_def getBestAdDuration_source)

lemma domTextStep_source:
  "source e \<noteq> estimation \<Longrightarrow> source (domTextStep pg e) \<noteq> estimation"
  by (simp add: domTextStep_def split: option.splits time_match.splits)

lemma progressBarStep_source:
  "source e \<noteq> estimation \<Longrightarrow> source (progressBarStep pg e) \<noteq> estimation"
  by (simp add: progressBarStep_def split: option.splits prod.splits)

lemma skipInferenceStep_source:
  "source e \<noteq> estimation \<Longrightarrow> source (skipInferenceStep t e) \<noteq> estimation"
  by (simp add: skipInferenceStep_def split: option.splits)

lemma estimationStep_estimated:
  "source e \<noteq> estimation \<Longrightarrow> source (estimationStep c e) = estimation \<Longrightarrow>
   \<not> skippableNow (estimationStep c e) \<Longrightarrow> c \<Longrightarrow>
   adDuration (estimationStep c e) = 6"
  by (auto simp: estimationStep_def Let_def split: if_splits)

lemma estimateDuration_estimated:
  assumes "source (estimateDuration pg tracker) = estimation"
    and "\<not> skippableNow (estimateDuration pg tracker)" and "adContainer pg"
  shows "adDuration (estimateDuration pg tracker) = 6"
proof -
  have "source (skipInferenceStep (resolveSkipText pg)
         (progressBarStep pg
           (domTextStep pg
             (bestDurationStep tracker (video pg)
               \<lparr>skippableNow = detectSkippable pg, adDuration = 0, detected = False,
                source = source_none\<rparr>)))) \<noteq> estimation"
    by (intro skipInferenceStep_source progressBarStep_source domTextStep_source
          bestDurationStep_source) simp
  then show ?thesis
    using assms unfolding estimateDuration_def by (rule estimationStep_estimated)
qed

lemma positionStep_sequence:
  "isInAdSequence (snd (positionStep videoElement pg st)) = isInAdSequence st"
  by (simp add: positionStep_def updateVideoContext_def Let_def)

subsection \<open>Position\<close>

text \<open>
  Claim C1 as stated fails for the position step of the detection pass. With a
  \<open>video\<close> element located, a reference duration of 20 seconds and a reference time of
  12 seconds, the step returns \<open>mid_roll\<close>, not \<open>unknown\<close>.
\<close>

theorem short_video_is_classified_counterexample:
  "fst (positionStep
       \<lparr>paused = False, ended = False, elementCurrentTime = 12,
        elementDuration = Some 20, readyState = 4\<rparr>
       (emptyPage\<lparr>lengthSeconds := Some 20, ariaValueNow := Some 12, ariaValueMax := Some 20\<rparr>)
       initialObserver) = mid_roll"
  by (simp add: positionStep_def classifyPosition_def emptyPage_def initialObserver_def
        updateVideoContext_def Let_def)

text \<open>
  Claim C1, amended. With a \<open>video\<close> element located, the position step of the
  detection pass returns exactly one of \<open>pre_roll\<close>, \<open>mid_roll\<close>, \<open>post_roll\<close> and never
  \<open>unknown\<close>, for every reference duration, also below 30 seconds; so does every
  detection pass that completes. The 30 second rule is that of the separate
  classifier \<open>detectarPosicionAnuncio\<close>: with a \<open>video\<close> element located it returns
  \<open>unknown\<close> for a duration below 30 and one of the three positions otherwise.
\<close>

theorem position_with_video_located:
  "fst (positionStep videoElement pg st) \<in> {pre_roll, mid_roll, post_roll}
   \<and> (passCompletes pg st \<and> video pg = Some videoElement \<longrightarrow>
        adPosition (fst (detectAdTypeCommon pg now st)) \<in> {pre_roll, mid_roll, post_roll})
   \<and> (videoDuration < 30 \<longrightarrow>
        detectarPosicionAnuncio adStartTime videoDuration (Some videoElement) st'
          = position_unknown)
   \<and> (30 \<le> videoDuration \<longrightarrow>
        detectarPosicionAnuncio adStartTime videoDuration (Some videoElement) st'
          \<in> {pre_roll, mid_roll, post_roll})"
proof -
  have "adPosition (fst (detectAdTypeCommon pg now st)) \<in> {pre_roll, mid_roll, post_roll}"
    if pc: "passCompletes pg st" and v: "video pg = Some videoElement"
  proof -
    obtain tracker where t: "\<not> inspectionRaises pg" "adDurationTracker st = Some tracker"
      using pc by (auto simp: passCompletes_def)
    show ?thesis
      using positionStep_known[of videoElement pg "startAdSequence st"] v
      by (simp add: detect_completes[OF t])
  qed
  moreover have "videoDuration < 30 \<longrightarrow>
        detectarPosicionAnuncio adStartTime videoDuration (Some videoElement) st'
          = position_unknown"
    unfolding detectarPosicionAnuncio_def Let_def by simp
  moreover have "30 \<le> videoDuration \<longrightarrow>
        detectarPosicionAnuncio adStartTime videoDuration (Some videoElement) st'
          \<in> {pre_roll, mid_roll, post_roll}"
    unfolding detectarPosicionAnuncio_def Let_def by (simp split: if_splits)
  ultimately show ?thesis
    using positionStep_known[of videoElement pg st] by blast
qed

text \<open>
  Instances for claim C1: \<open>detectarPosicionAnuncio\<close> on a 20 second and on a 600
  second video, and a detection pass that completes on a 600 second video at 300
  seconds.
\<close>

theorem position_with_video_located_witness:
  "detectarPosicionAnuncio 12 20 (Some \<lparr>paused = False, ended = False, elementCurrentTime = 300,
                 elementDuration = Some 600, readyState = 2\<rparr>) initialObserver = position_unknown
   \<and> detectarPosicionAnuncio 300 600 (Some \<lparr>paused = False, ended = False, elementCurrentTime = 300,
                 elementDuration = Some 600, readyState = 2\<rparr>) initialObserver = mid_roll
   \<and> passCompletes (emptyPage\<lparr>adContainer := True,
           video := Some \<lparr>paused = False, ended = False, elementCurrentTime = 300,
                           elementDuration = Some 600, readyState = 4\<rparr>,
           lengthSeconds := Some 600, ariaValueNow := Some 300, ariaValueMax := Some 600\<rparr>) (startAdDurationTracking 1000000 initialObserver)
   \<and> adPosition (fst (detectAdTypeCommon (emptyPage\<lparr>adContainer := True,
           video := Some \<lparr>paused = False, ended = False, elementCurrentTime = 300,
                           elementDuration = Some 600, readyState = 4\<rparr>,
           lengthSeconds := Some 600, ariaValueNow := Some 300, ariaValueMax := Some 600\<rparr>) 1000000 (startAdDurationTracking 1000000 initialObserver)))
       \<in> {pre_roll, mid_roll, post_roll}"
proof -
  have a: "detectarPosicionAnuncio 300 600 (Some \<lparr>paused = False, ended = False, elementCurrentTime = 300,
                 elementDuration = Some 600, readyState = 2\<rparr>) initialObserver = mid_roll"
    by (simp add: detectarPosicionAnuncio_def initialObserver_def Let_def)
  have b: "passCompletes (emptyPage\<lparr>adContainer := True,
           video := Some \<lparr>paused = False, ended = False, elementCurrentTime = 300,
                           elementDuration = Some 600, readyState = 4\<rparr>,
           lengthSeconds := Some 600, ariaValueNow := Some 300, ariaValueMax := Some 600\<rparr>) (startAdDurationTracking 1000000 initialObserver)"
    by (simp add: passCompletes_def emptyPage_def startAdDurationTracking_def)
  have c: "video (emptyPage\<lparr>adContainer := True,
           video := Some \<lparr>paused = False, ended = False, elementCurrentTime = 300,
                           elementDuration = Some 600, readyState = 4\<rparr>,
           lengthSeconds := Some 600, ariaValueNow := Some 300, ariaValueMax := Some 600\<rparr>) = Some \<lparr>paused = False, ended = False, elementCurrentTime = 300,
                           elementDuration = Some 600, readyState = 4\<rparr>"
    by simp
  show ?thesis
    using a b c
      position_with_video_located
        [where videoElement = "\<lparr>paused = False, ended = False, elementCurrentTime = 300,
                 elementDuration = Some 600, readyState = 2\<rparr>"
           and videoDuration = 20 and adStartTime = 12 and st' = initialObserver
           and pg = emptyPage and st = initialObserver and now = 0]
      position_with_video_located
        [where videoElement = "\<lparr>paused = False, ended = False, elementCurrentTime = 300,
                           elementDuration = Some 600, readyState = 4\<rparr>"
           and pg = "emptyPage\<lparr>adContainer := True,
           video := Some \<lparr>paused = False, ended = False, elementCurrentTime = 300,
                           elementDuration = Some 600, readyState = 4\<rparr>,
           lengthSeconds := Some 600, ariaValueNow := Some 300, ariaValueMax := Some 600\<rparr>"
           and st = "startAdDurationTracking 1000000 initialObserver" and now = 1000000
           and videoDuration = 600 and adStartTime = 300 and st' = initialObserver]
    by simp
qed

subsection \<open>Consecutive ads\<close>

text \<open>
  Claim C2 does not hold in the code. Three ads are detected within 8 seconds on a
  600 second host video. When the first is detected the \<open>video\<close> element still shows
  the host video at 300 seconds, which is captured as the context. At the second and
  third detection the element and the progress bar show the ad that is playing (1
  and 2 seconds into a 15 second ad). The passes classify the first ad as \<open>mid_roll\<close>
  and the other two as \<open>pre_roll\<close>: each pass uses what it observes, not the captured
  context.
\<close>

theorem consecutive_ads_use_live_values:
  "map adPosition (adActivePolls
     [(True, False, (emptyPage\<lparr>adContainer := True,
           video := Some \<lparr>paused = False, ended = False, elementCurrentTime = 300,
                           elementDuration = Some 600, readyState = 4\<rparr>,
           lengthSeconds := Some 600, ariaValueNow := Some 300, ariaValueMax := Some 600\<rparr>), 1000000),
      (True, False, (emptyPage\<lparr>adContainer := True,
           video := Some \<lparr>paused = False, ended = False, elementCurrentTime = 1,
                           elementDuration = Some 15, readyState = 4\<rparr>,
           lengthSeconds := Some 600, ariaValueNow := Some 1, ariaValueMax := Some 15\<rparr>), 1004000),
      (True, False, (emptyPage\<lparr>adContainer := True,
           video := Some \<lparr>paused = False, ended = False, elementCurrentTime = 2,
                           elementDuration = Some 15, readyState = 4\<rparr>,
           lengthSeconds := Some 600, ariaValueNow := Some 2, ariaValueMax := Some 15\<rparr>), 1008000)]
     initialObserver) = [mid_roll, pre_roll, pre_roll]"
  by (simp add: adActivePoll_def detectAdTypeCommon_def startAdSequence_def
        resetAdDataVariables_def startAdDurationTracking_def captureVideoTime_def
        positionStep_def classifyPosition_def updateVideoContext_def emptyPage_def
        initialObserver_def Let_def)

text \<open>
  The reason: \<open>startAdSequence\<close> sets \<open>isInAdSequence\<close> and then calls
  \<open>resetAdDataVariables\<close>, which clears it. So the flag is false after every call and
  after every detection pass, and a pass that starts with the flag false reports
  \<open>consecutiveAdNumber\<close> 0, below the threshold at which the stored context would be
  used.
\<close>

lemma sequence_flag_always_cleared:
  "\<not> isInAdSequence (startAdSequence st)
   \<and> \<not> isInAdSequence (snd (detectAdTypeCommon pg now st))"
  by (simp add: detectAdTypeCommon_def startAdSequence_def resetAdDataVariables_def
        positionStep_sequence Let_def split: option.splits)

subsection \<open>Type\<close>

text \<open>
  Claim C3 as stated fails. On a page with an ad container and no duration tracker
  (as after a navigation), \<open>getBestAdDuration\<close> throws and the pass returns the
  descriptor of its \<open>catch\<close> branch: type \<open>unknown\<close>, not skippable, duration 0. The
  rule of the claim gives \<open>non_skippable\<close> for these values when a container was
  detected.
\<close>

theorem type_unknown_with_container_counterexample:
  "adType (fst (detectAdTypeCommon (emptyPage\<lparr>adContainer := True\<rparr>) 1000000 initialObserver))
     = type_unknown
   \<and> isSkippable (fst (detectAdTypeCommon (emptyPage\<lparr>adContainer := True\<rparr>) 1000000
        initialObserver)) = False
   \<and> duration (fst (detectAdTypeCommon (emptyPage\<lparr>adContainer := True\<rparr>) 1000000
        initialObserver)) = 0
   \<and> adContainer (emptyPage\<lparr>adContainer := True\<rparr>)
   \<and> type_unknown \<noteq> non_skippable"
  by (simp add: detectAdTypeCommon_def catchDescriptor_def startAdSequence_def
        resetAdDataVariables_def emptyPage_def initialObserver_def Let_def)

text \<open>
  Claim C3, amended. For every ad descriptor produced by a detection pass, the type is
  the function of \<open>isSkippable\<close> and \<open>duration\<close> given by: skippable yields
  \<open>skippable\<close>; otherwise a duration above 0 yields \<open>bumper\<close> up to 6,
  \<open>non_skippable_short\<close> up to 15, \<open>non_skippable_medium\<close> up to 30 and
  \<open>non_skippable_long\<close> above; otherwise \<open>unknown\<close>, whether or not an ad container was
  detected. The type \<open>non_skippable\<close> is never produced. For a pass that completes,
  the rule of the claim (with \<open>non_skippable\<close> when a container was detected) gives the
  same type; and when such a pass finds a container, finds the ad not skippable and
  has to estimate the duration, the duration is 6 and the type is \<open>bumper\<close>.
\<close>

theorem type_from_skippable_and_duration:
  "adType (fst (detectAdTypeCommon pg now st)) =
     (if isSkippable (fst (detectAdTypeCommon pg now st)) then skippable
      else if duration (fst (detectAdTypeCommon pg now st)) > 0 then
        (if duration (fst (detectAdTypeCommon pg now st)) \<le> 6 then bumper
         else if duration (fst (detectAdTypeCommon pg now st)) \<le> 15 then non_skippable_short
         else if duration (fst (detectAdTypeCommon pg now st)) \<le> 30 then non_skippable_medium
         else non_skippable_long)
      else type_unknown)
   \<and> adType (fst (detectAdTypeCommon pg now st)) \<noteq> non_skippable
   \<and> (passCompletes pg st \<longrightarrow>
        adType (fst (detectAdTypeCommon pg now st)) =
          (if isSkippable (fst (detectAdTypeCommon pg now st)) then skippable
           else if duration (fst (detectAdTypeCommon pg now st)) > 0 then
             (if duration (fst (detectAdTypeCommon pg now st)) \<le> 6 then bumper
              else if duration (fst (detectAdTypeCommon pg now st)) \<le> 15 then non_skippable_short
              else if duration (fst (detectAdTypeCommon pg now st)) \<le> 30 then non_skippable_medium
              else non_skippable_long)
           else if adContainer pg then non_skippable
           else type_unknown))
   \<and> (passCompletes pg st \<and> adContainer pg \<and> \<not> isSkippable (fst (detectAdTypeCommon pg now st))
        \<and> durationSource (fst (detectAdTypeCommon pg now st)) = estimation \<longrightarrow>
        duration (fst (detectAdTypeCommon pg now st)) = 6 \<and> adType (fst (detectAdTypeCommon pg now st)) = bumper)"
proof (cases "passCompletes pg st")
  case True
  then obtain tracker where t: "\<not> inspectionRaises pg" "adDurationTracker st = Some tracker"
    by (auto simp: passCompletes_def)
  let ?e = "estimateDuration pg tracker"
  have fields: "adType (fst (detectAdTypeCommon pg now st)) = deriveAdType (skippableNow ?e) (adDuration ?e) (adContainer pg)"
    "isSkippable (fst (detectAdTypeCommon pg now st)) = skippableNow ?e" "duration (fst (detectAdTypeCommon pg now st)) = adDuration ?e"
    "durationSource (fst (detectAdTypeCommon pg now st)) = source ?e"
    by (simp_all add: detect_completes[OF t])
  have zero: "0 \<le> adDuration ?e"
    "adDuration ?e = 0 \<longrightarrow> \<not> skippableNow ?e \<and> \<not> adContainer pg"
    using estimateDuration_zero[of pg tracker] by simp_all
  have six: "adDuration ?e = 6"
    if "adContainer pg" "\<not> skippableNow ?e" "source ?e = estimation"
    using estimateDuration_estimated[of pg tracker] that by simp
  show ?thesis
    unfolding fields using zero six True by (auto simp: deriveAdType_def)
next
  case False
  then have "inspectionRaises pg \<or> adDurationTracker st = None"
    by (simp add: passCompletes_def)
  then have "(fst (detectAdTypeCommon pg now st)) = catchDescriptor now (startAdSequence st)"
    by (rule detect_raises)
  then show ?thesis
    using False by (simp add: catchDescriptor_def)
qed

text \<open>
  An instance for claim C3: a pass that completes on a page with an ad container, no
  skip evidence and no duration from any source (the \<open>video\<close> element shows the 600
  second host video). The duration is estimated as 6 and the type is \<open>bumper\<close>.
\<close>

theorem type_from_skippable_and_duration_witness:
  "passCompletes (emptyPage\<lparr>adContainer := True,
           video := Some \<lparr>paused = False, ended = False, elementCurrentTime = 300,
                           elementDuration = Some 600, readyState = 4\<rparr>\<rparr>) (startAdDurationTracking 1000000 initialObserver)
   \<and> adContainer (emptyPage\<lparr>adContainer := True,
           video := Some \<lparr>paused = False, ended = False, elementCurrentTime = 300,
                           elementDuration = Some 600, readyState = 4\<rparr>\<rparr>)
   \<and> \<not> isSkippable (fst (detectAdTypeCommon (emptyPage\<lparr>adContainer := True,
           video := Some \<lparr>paused = False, ended = False, elementCurrentTime = 300,
                           elementDuration = Some 600, readyState = 4\<rparr>\<rparr>) 1000000 (startAdDurationTracking 1000000 initialObserver)))
   \<and> durationSource (fst (detectAdTypeCommon (emptyPage\<lparr>adContainer := True,
           video := Some \<lparr>paused = False, ended = False, elementCurrentTime = 300,
                           elementDuration = Some 600, readyState = 4\<rparr>\<rparr>) 1000000 (startAdDurationTracking 1000000 initialObserver))) = estimation
   \<and> duration (fst (detectAdTypeCommon (emptyPage\<lparr>adContainer := True,
           video := Some \<lparr>paused = False, ended = False, elementCurrentTime = 300,
                           elementDuration = Some 600, readyState = 4\<rparr>\<rparr>) 1000000 (startAdDurationTracking 1000000 initialObserver))) = 6
   \<and> adType (fst (detectAdTypeCommon (emptyPage\<lparr>adContainer := True,
           video := Some \<lparr>paused = False, ended = False, elementCurrentTime = 300,
                           elementDuration = Some 600, readyState = 4\<rparr>\<rparr>) 1000000 (startAdDurationTracking 1000000 initialObserver))) = bumper"
proof -
  have a: "passCompletes (emptyPage\<lparr>adContainer := True,
           video := Some \<lparr>paused = False, ended = False, elementCurrentTime = 300,
                           elementDuration = Some 600, readyState = 4\<rparr>\<rparr>) (startAdDurationTracking 1000000 initialObserver)" "adContainer (emptyPage\<lparr>adContainer := True,
           video := Some \<lparr>paused = False, ended = False, elementCurrentTime = 300,
                           elementDuration = Some 600, readyState = 4\<rparr>\<rparr>)"
    by (simp_all add: passCompletes_def emptyPage_def startAdDurationTracking_def)
  have b: "\<not> isSkippable (fst (detectAdTypeCommon (emptyPage\<lparr>adContainer := True,
           video := Some \<lparr>paused = False, ended = False, elementCurrentTime = 300,
                           elementDuration = Some 600, readyState = 4\<rparr>\<rparr>) 1000000 (startAdDurationTracking 1000000 initialObserver)))" "durationSource (fst (detectAdTypeCommon (emptyPage\<lparr>adContainer := True,
           video := Some \<lparr>paused = False, ended = False, elementCurrentTime = 300,
                           elementDuration = Some 600, readyState = 4\<rparr>\<rparr>) 1000000 (startAdDurationTracking 1000000 initialObserver))) = estimation"
    by (simp_all add: detectAdTypeCommon_def startAdSequence_def resetAdDataVariables_def
        startAdDurationTracking_def initialObserver_def emptyPage_def estimateDuration_def
        bestDurationStep_def getBestAdDuration_def domTextStep_def progressBarStep_def
        skipInferenceStep_def estimationStep_def detectSkippable_def resolveSkipText_def
        Let_def)
  show ?thesis
    using a b type_from_skippable_and_duration[of "(emptyPage\<lparr>adContainer := True,
           video := Some \<lparr>paused = False, ended = False, elementCurrentTime = 300,
                           elementDuration = Some 600, readyState = 4\<rparr>\<rparr>)" 1000000 "(startAdDurationTracking 1000000 initialObserver)"]
    by blast
qed

subsection \<open>Skip inference\<close>

text \<open>
  Claim C4 as stated fails. No duration was measured, the \<open>video\<close> element reports
  duration 0 and the skip button shows \<open>Skip in 4\<close>. The descriptor has duration 6 from
  \<open>skip-inference\<close> and is skippable, and therefore its type is \<open>skippable\<close>, not
  \<open>bumper\<close>.
\<close>

theorem skip_countdown_type_counterexample:
  "adType (fst (detectAdTypeCommon (emptyPage\<lparr>skipButton := Some ''Skip in 4'', adContainer := True,
           video := Some \<lparr>paused = False, ended = False, elementCurrentTime = 0,
                           elementDuration = Some 0, readyState = 4\<rparr>\<rparr>) 1000000 (startAdDurationTracking 1000000 initialObserver))) = skippable
   \<and> skippable \<noteq> bumper"
  by (simp add: detectAdTypeCommon_def startAdSequence_def resetAdDataVariables_def
        startAdDurationTracking_def initialObserver_def emptyPage_def estimateDuration_def
        bestDurationStep_def getBestAdDuration_def domTextStep_def progressBarStep_def
        skipInferenceStep_def estimationStep_def detectSkippable_def resolveSkipText_def
        firstNumber_skip4 deriveAdType_def Let_def)

text \<open>
  Claim C4, amended. When a detection pass completes, no duration was measured (no
  real duration and no progress updates in the tracker), the \<open>video\<close> element reports
  duration 0, no time display and no progress label matches, and the skip text is
  \<open>Skip in 4\<close>, the descriptor has type \<open>skippable\<close>, duration 6, duration source
  \<open>skip-inference\<close> and \<open>isSkippable\<close> true.
\<close>

theorem skip_countdown_four:
  assumes "\<not> inspectionRaises pg" "adDurationTracker st = Some tracker"
    and "realDuration tracker = None" "progressUpdates tracker = []"
    and "video pg = Some v" "elementDuration v = Some 0"
    and "timeMatch pg = None" "progressMatch pg = None"
    and "resolveSkipText pg = ''Skip in 4''"
  shows "adType (fst (detectAdTypeCommon pg now st)) = skippable
       \<and> duration (fst (detectAdTypeCommon pg now st)) = 6
       \<and> durationSource (fst (detectAdTypeCommon pg now st)) = skip_inference
       \<and> isSkippable (fst (detectAdTypeCommon pg now st))"
proof -
  have best: "getBestAdDuration tracker (video pg) = (0, False, source_none)"
    using assms by (simp add: getBestAdDuration_def Let_def)
  have e: "estimateDuration pg tracker
           = \<lparr>skippableNow = True, adDuration = 6, detected = True, source = skip_inference\<rparr>"
    using assms best
    by (simp add: estimateDuration_def bestDurationStep_def domTextStep_def progressBarStep_def
          skipInferenceStep_def estimationStep_def firstNumber_skip4 Let_def)
  show ?thesis
    by (simp add: detect_completes[OF assms(1,2)] e deriveAdType_def)
qed

text \<open>An instance for claim C4: the skip button shows \<open>Skip in 4\<close>.\<close>

theorem skip_countdown_four_witness:
  "duration (fst (detectAdTypeCommon (emptyPage\<lparr>skipButton := Some ''Skip in 4'', adContainer := True,
           video := Some \<lparr>paused = False, ended = False, elementCurrentTime = 0,
                           elementDuration = Some 0, readyState = 4\<rparr>\<rparr>) 1000000 (startAdDurationTracking 1000000 initialObserver))) = 6
   \<and> durationSource (fst (detectAdTypeCommon (emptyPage\<lparr>skipButton := Some ''Skip in 4'', adContainer := True,
           video := Some \<lparr>paused = False, ended = False, elementCurrentTime = 0,
                           elementDuration = Some 0, readyState = 4\<rparr>\<rparr>) 1000000 (startAdDurationTracking 1000000 initialObserver)))
       = skip_inference
   \<and> isSkippable (fst (detectAdTypeCommon (emptyPage\<lparr>skipButton := Some ''Skip in 4'', adContainer := True,
           video := Some \<lparr>paused = False, ended = False, elementCurrentTime = 0,
                           elementDuration = Some 0, readyState = 4\<rparr>\<rparr>) 1000000 (startAdDurationTracking 1000000 initialObserver)))"
  using skip_countdown_four
    [of "(emptyPage\<lparr>skipButton := Some ''Skip in 4'', adContainer := True,
           video := Some \<lparr>paused = False, ended = False, elementCurrentTime = 0,
                           elementDuration = Some 0, readyState = 4\<rparr>\<rparr>)" "(startAdDurationTracking 1000000 initialObserver)"
        "\<lparr>startTime = 1000000, realDuration = None, progressUpdates = [], isTracking = True\<rparr>"
        "\<lparr>paused = False, ended = False, elementCurrentTime = 0,
          elementDuration = Some 0, readyState = 4\<rparr>" 1000000]
  by (simp add: emptyPage_def startAdDurationTracking_def resolveSkipText_def)

end
